theory Spec2Isabelle
  imports Complex_Main
begin

section \<open>Tensors, batches and configuration\<close>

text \<open>
  The development embeds \<^verbatim>\<open>modules/runner.py\<close>: \<^verbatim>\<open>eval_model\<close> and \<^verbatim>\<open>train_model\<close>.
  Floating-point tensors are idealised as lists of reals: a vector is a list, a
  \<open>[N, D]\<close> tensor a list of \<open>N\<close> rows, a \<open>[K, M, D]\<close> tensor a list of \<open>K\<close> lists of
  \<open>M\<close> rows. Rounding, half precision and NaN are outside the model. Operations of the
  tensor library are total here; where the library would reject ill-shaped operands
  the lists are truncated as \<open>zip\<close> does, except for \<^verbatim>\<open>reshape\<close> and for the in-place
  row assignment, whose shape checks are written out.
\<close>

type_synonym vec = "real list"
type_synonym tensor2 = "vec list"
type_synonym tensor3 = "tensor2 list"

text \<open>A loader yields \<^verbatim>\<open>(images, target, target_f)\<close> triples; labels are class indices.
  Every iteration over a loader is taken to yield the same batches in the same order.\<close>

type_synonym 'img batch = "'img list \<times> nat list \<times> tensor2"
type_synonym 'img loader = "'img batch list"

datatype exn =
    ValueError string
  | UnboundLocalError string
  | ZeroDivisionError
  | IndexError
  | RuntimeError string
  | AttributeError string
  | TypeError string

text \<open>The options of \<^verbatim>\<open>args\<close> that the two functions read.\<close>

record args =
  enable_lora :: bool
  enable_BitFit :: bool
  enable_MetaAdapter :: bool
  encoder :: string
  n_iters :: int
  shots :: int
  lr :: real
  save_path :: "string option"
  filename :: string

text \<open>Python is dynamically typed: the positional parameters \<^verbatim>\<open>target_features\<close> and
  \<^verbatim>\<open>support_img_loader\<close> of \<^verbatim>\<open>eval_model\<close> receive whatever the caller passes.\<close>

datatype 'img pyval = PyNone | PyTensor tensor2 | PyLoader "'img loader"

section \<open>Model objects and the store\<close>

text \<open>A model object lives in a store and is referred to by its address, so that
  \<^verbatim>\<open>best_model = model\<close> (two names, one object) differs from
  \<^verbatim>\<open>copy.deepcopy(model)\<close> (a new object). Addresses handed to the functions are
  assumed to be valid (below the length of the store).\<close>

datatype device = CPU | CUDA

record 'p module =
  params :: 'p
  training :: bool
  device :: device

datatype 'img event =
    EncodeImage nat
  | MetaAdapter nat
  | GetVisionTargetFeatures nat
  | GetTextTargetFeatures nat
  | OptimizerStep nat
  | PrintTrain real real real
  | EvalModel nat "'img pyval" "'img pyval" "'img pyval"
  | PrintVal real
  | PrintTest real
  | DeepCopy nat nat
  | TorchSave nat string
  | PrintSaved string

text \<open>The part of the state that \<^verbatim>\<open>eval_model\<close> touches: the store and the log of
  calls made to collaborators and of lines printed.\<close>

record ('p, 'img) world =
  heap :: "'p module list"
  trace :: "'img event list"

text \<open>How the logits of a training step were obtained; the opaque backward pass and
  optimizer update depend on it.\<close>

datatype reference = StaticRef tensor2 | AdaptedRef tensor2 tensor3

text \<open>The collaborators that are not part of \<^verbatim>\<open>runner.py\<close>: the model's encoders and
  meta-adapter, the target-feature providers, \<^verbatim>\<open>cls_acc\<close> of \<^verbatim>\<open>utils\<close>, the loss, and
  the optimizer with its scaler and scheduler.\<close>

record ('p, 'o, 'img, 'ds) env =
  encode_image :: "'p module \<Rightarrow> 'img list \<Rightarrow> tensor2"
  meta_adapter :: "'p module \<Rightarrow> tensor2 \<Rightarrow> tensor3 \<Rightarrow> tensor3 \<Rightarrow> tensor2"
  get_text_target_features :: "'p module \<Rightarrow> 'ds \<Rightarrow> tensor2"
  get_vision_target_features :: "'p module \<Rightarrow> 'img loader \<Rightarrow> tensor2"
  cls_acc :: "tensor2 \<Rightarrow> nat list \<Rightarrow> real"
  cross_entropy :: "tensor2 \<Rightarrow> nat list \<Rightarrow> real"
  new_optimizer :: "'p \<Rightarrow> real \<Rightarrow> int \<Rightarrow> 'o"
  optimizer_step :: "'o \<Rightarrow> 'p module \<Rightarrow> 'img list \<Rightarrow> nat list \<Rightarrow> reference \<Rightarrow> real \<Rightarrow> 'o \<times> 'p"
  get_last_lr :: "'o \<Rightarrow> real"

section \<open>Similarity scorer\<close>

text \<open>\<^verbatim>\<open>x / x.norm(dim=-1, keepdim=True)\<close>\<close>

definition l2norm :: "vec \<Rightarrow> real" where
  "l2norm v = sqrt (sum_list (map (\<lambda>x. x * x) v))"

definition normalize_rows :: "tensor2 \<Rightarrow> tensor2" where
  "normalize_rows F = map (\<lambda>v. map (\<lambda>x. x / l2norm v) v) F"

text \<open>\<^verbatim>\<open>logit_scale * image_features @ R.t()\<close>: Python groups it as
  \<^verbatim>\<open>(logit_scale * image_features) @ R.t()\<close>.\<close>

definition scale :: "real \<Rightarrow> tensor2 \<Rightarrow> tensor2" where
  "scale c F = map (map (\<lambda>x. c * x)) F"

definition dot :: "vec \<Rightarrow> vec \<Rightarrow> real" where
  "dot u v = sum_list (map (\<lambda>(x, y). x * y) (zip u v))"

definition matmul_t :: "tensor2 \<Rightarrow> tensor2 \<Rightarrow> tensor2" where
  "matmul_t F R = map (\<lambda>q. map (\<lambda>r. dot q r) R) F"

definition cosine_similarity :: "real \<Rightarrow> tensor2 \<Rightarrow> tensor2 \<Rightarrow> tensor2" where
  "cosine_similarity logit_scale F R = matmul_t (scale logit_scale F) R"

text \<open>\<^verbatim>\<open>argmax(dim=-1)\<close> of the tensor library, with the first-max reading the
  specification gives it: the index of the first entry that equals the row's maximum.
  (An empty row, which the library rejects, gives 0.)\<close>

definition argmax :: "real list \<Rightarrow> nat" where
  "argmax xs = (case xs of [] \<Rightarrow> 0
                | _ # _ \<Rightarrow> length (takeWhile (\<lambda>v. v \<noteq> Max (set xs)) xs))"

definition predict :: "tensor2 \<Rightarrow> nat list" where
  "predict S = map argmax S"

text \<open>Modelled from the spec: \<^verbatim>\<open>cls_acc\<close> is imported from \<^verbatim>\<open>utils\<close>, which is not among
  the sources. The specification calls its result the per-batch accuracy: the share
  of the rows of the score matrix whose argmax is the row's target, out of
  \<^verbatim>\<open>target.shape[0]\<close>.\<close>

definition count_correct :: "nat list \<Rightarrow> nat list \<Rightarrow> nat" where
  "count_correct preds target = length (filter (\<lambda>(p, t). p = t) (zip preds target))"

definition cls_acc_spec :: "tensor2 \<Rightarrow> nat list \<Rightarrow> real" where
  "cls_acc_spec S target = real (count_correct (predict S) target) / real (length target)"

section \<open>Shapes\<close>

definition shape0 :: "'a list \<Rightarrow> nat" where
  "shape0 t = length t"

definition shape1 :: "'a list list \<Rightarrow> nat" where
  "shape1 t = (case t of [] \<Rightarrow> 0 | r # _ \<Rightarrow> length r)"

primrec chunks :: "nat \<Rightarrow> nat \<Rightarrow> 'a list \<Rightarrow> 'a list list" where
  "chunks n 0 xs = []"
| "chunks n (Suc k) xs = take n xs # chunks n k (drop n xs)"

text \<open>\<^verbatim>\<open>t.reshape(K, -1, D)\<close>: the elements in row-major order are cut into \<open>K\<close> blocks
  of \<open>M\<close> rows of \<open>D\<close> entries, \<open>M\<close> inferred; the library raises when \<open>K * D\<close> is zero
  or does not divide the number of elements.\<close>

definition reshape3 :: "nat \<Rightarrow> nat \<Rightarrow> tensor2 \<Rightarrow> exn + tensor3" where
  "reshape3 K D t =
     (let flat = concat t in
      if K * D = 0 \<or> length flat mod (K * D) \<noteq> 0
      then Inl (RuntimeError ''shape is invalid for input'')
      else let M = length flat div (K * D)
           in Inr (map (chunks D M) (chunks (M * D) K flat)))"

section \<open>Evaluation loop\<close>

record 'img eval_result =
  acc :: real
  images :: "'img list"
  targets :: "nat list"
  predictions :: "nat list"
  similarities :: tensor2

record 'img eval_acc =
  run_acc :: real
  run_tot :: nat
  all_images :: "'img list"
  all_targets :: "nat list"
  all_predictions :: "nat list"
  all_similarities :: tensor2

definition eval_acc0 :: "'img eval_acc" where
  "eval_acc0 = \<lparr>run_acc = 0, run_tot = 0, all_images = [], all_targets = [],
                all_predictions = [], all_similarities = []\<rparr>"

definition log_event :: "'img event \<Rightarrow> ('p, 'img, 'z) world_scheme \<Rightarrow> ('p, 'img, 'z) world_scheme" where
  "log_event e w = w\<lparr>trace := trace w @ [e]\<rparr>"

definition set_training :: "nat \<Rightarrow> bool \<Rightarrow> ('p, 'img, 'z) world_scheme \<Rightarrow> ('p, 'img, 'z) world_scheme" where
  "set_training m b w = w\<lparr>heap := (heap w)[m := (heap w ! m)\<lparr>training := b\<rparr>]\<rparr>"

text \<open>Lines 49--52: the query/key pair is extracted from the support loader when the
  meta-adapter is enabled and the caller did not pass both tensors.\<close>

definition eval_meta_init ::
  "('p, 'o, 'img, 'ds) env \<Rightarrow> args \<Rightarrow> nat \<Rightarrow> 'img pyval \<Rightarrow> 'img pyval \<Rightarrow>
   tensor2 option \<Rightarrow> tensor3 option \<Rightarrow> ('p, 'img, 'z) world_scheme \<Rightarrow>
   (exn + tensor2 option \<times> tensor3 option) \<times> ('p, 'img, 'z) world_scheme" where
  "eval_meta_init E a m tf support mq mk w =
     (if enable_MetaAdapter a \<and> (mq = None \<or> mk = None) then
        (case support of
           PyLoader l \<Rightarrow>
             (let support_features = get_vision_target_features E (heap w ! m) l;
                  w1 = log_event (GetVisionTargetFeatures m) w
              in case tf of
                   PyTensor t \<Rightarrow>
                     (case reshape3 (shape0 t) (shape1 t) support_features of
                        Inl e \<Rightarrow> (Inl e, w1)
                      | Inr k \<Rightarrow> (Inr (Some t, Some k), w1))
                 | _ \<Rightarrow> (Inl (AttributeError ''shape''), w1))
         | _ \<Rightarrow> (Inl (TypeError ''support_img_loader is not a loader''), w))
      else (Inr (mq, mk), w))"

text \<open>Lines 55--80: one batch of the evaluation loop.\<close>

definition eval_batch ::
  "('p, 'o, 'img, 'ds) env \<Rightarrow> args \<Rightarrow> nat \<Rightarrow> real \<Rightarrow> 'img pyval \<Rightarrow>
   tensor2 option \<Rightarrow> tensor3 option \<Rightarrow> 'img batch \<Rightarrow> 'img eval_acc \<Rightarrow>
   ('p, 'img, 'z) world_scheme \<Rightarrow> (exn + 'img eval_acc) \<times> ('p, 'img, 'z) world_scheme" where
  "eval_batch E a m logit_scale tf mq mk b r w =
     (case b of (imgs, target, target_f) \<Rightarrow>
        let image_features = normalize_rows (encode_image E (heap w ! m) imgs);
            w1 = log_event (EncodeImage m) w;
            scored =
              (if enable_MetaAdapter a then
                 (case (mq, mk) of
                    (Some q, Some k) \<Rightarrow>
                      (Inr (cosine_similarity logit_scale image_features
                              (meta_adapter E (heap w1 ! m) q k k)),
                       log_event (MetaAdapter m) w1)
                  | _ \<Rightarrow> (Inl (TypeError ''meta_adapter called with None''), w1))
               else
                 (case tf of
                    PyTensor t \<Rightarrow> (Inr (cosine_similarity logit_scale image_features t), w1)
                  | _ \<Rightarrow> (Inl (AttributeError ''t''), w1)))
        in case scored of
             (Inl e, w2) \<Rightarrow> (Inl e, w2)
           | (Inr sim, w2) \<Rightarrow>
               (Inr (r\<lparr>run_acc := run_acc r + cls_acc E sim target * real (length sim),
                       run_tot := run_tot r + length sim,
                       all_images := all_images r @ imgs,
                       all_targets := all_targets r @ target,
                       all_predictions := all_predictions r @ predict sim,
                       all_similarities := all_similarities r @ sim\<rparr>), w2))"

fun eval_loop ::
  "('p, 'o, 'img, 'ds) env \<Rightarrow> args \<Rightarrow> nat \<Rightarrow> real \<Rightarrow> 'img pyval \<Rightarrow>
   tensor2 option \<Rightarrow> tensor3 option \<Rightarrow> 'img loader \<Rightarrow> 'img eval_acc \<Rightarrow>
   ('p, 'img, 'z) world_scheme \<Rightarrow> (exn + 'img eval_acc) \<times> ('p, 'img, 'z) world_scheme" where
  "eval_loop E a m logit_scale tf mq mk [] r w = (Inr r, w)"
| "eval_loop E a m logit_scale tf mq mk (b # bs) r w =
     (case eval_batch E a m logit_scale tf mq mk b r w of
        (Inl e, w') \<Rightarrow> (Inl e, w')
      | (Inr r', w') \<Rightarrow> eval_loop E a m logit_scale tf mq mk bs r' w')"

definition eval_model ::
  "('p, 'o, 'img, 'ds) env \<Rightarrow> args \<Rightarrow> nat \<Rightarrow> real \<Rightarrow> 'img loader \<Rightarrow> 'img pyval \<Rightarrow>
   'img pyval \<Rightarrow> tensor2 option \<Rightarrow> tensor3 option \<Rightarrow> ('p, 'img, 'z) world_scheme \<Rightarrow>
   (exn + 'img eval_result) \<times> ('p, 'img, 'z) world_scheme" where
  "eval_model E a m logit_scale loader tf support mq mk w =
     (if (mk = None \<or> mq = None) \<and> support = PyNone
      then (Inl (ValueError ''Neither support_img_loader nor (meta_key and meta_query) provided. Please provide one of them.''), w)
      else
        (case eval_meta_init E a m tf support mq mk (set_training m False w) of
           (Inl e, w1) \<Rightarrow> (Inl e, w1)
         | (Inr (mq', mk'), w1) \<Rightarrow>
             (case eval_loop E a m logit_scale tf mq' mk' loader eval_acc0 w1 of
                (Inl e, w2) \<Rightarrow> (Inl e, w2)
              | (Inr r, w2) \<Rightarrow>
                  if run_tot r = 0 then (Inl ZeroDivisionError, w2)
                  else (Inr \<lparr>acc = run_acc r / real (run_tot r),
                             images = all_images r,
                             targets = all_targets r,
                             predictions = all_predictions r,
                             similarities = all_similarities r\<rparr>, w2))))"

section \<open>Meta-adapter key memory\<close>

text \<open>\<^verbatim>\<open>xs[:n]\<close> for a Python integer \<open>n\<close>: a negative bound counts from the end.\<close>

definition py_slice_upto :: "int \<Rightarrow> 'a list \<Rightarrow> 'a list" where
  "py_slice_upto n xs =
     (if 0 \<le> n then take (nat n) xs else take (length xs - nat (- n)) xs)"

text \<open>\<^verbatim>\<open>meta_key[tar] = v\<close> writes into the tensor in place and cannot change its shape:
  a value with as many rows as the slot is copied, a value of one row is broadcast
  over the slot, anything else is rejected by the library.\<close>

definition setitem_row :: "tensor3 \<Rightarrow> nat \<Rightarrow> tensor2 \<Rightarrow> exn + tensor3" where
  "setitem_row mk tar v =
     (if length v = shape1 mk then Inr (mk[tar := v])
      else if length v = 1 then Inr (mk[tar := replicate (shape1 mk) (hd v)])
      else Inl (RuntimeError ''shape mismatch''))"

text \<open>Line 164:
  \<^verbatim>\<open>meta_key[tar] = torch.cat([feat[None, :], meta_key[tar][:meta_key.shape[1] - 1]], dim=0)\<close>\<close>

definition update_row :: "tensor3 \<Rightarrow> nat \<Rightarrow> vec \<Rightarrow> exn + tensor3" where
  "update_row mk tar feat =
     (if tar < shape0 mk
      then setitem_row mk tar (feat # py_slice_upto (int (shape1 mk) - 1) (mk ! tar))
      else Inl IndexError)"

text \<open>Line 163: \<^verbatim>\<open>for tar, feat in zip(target, image_features)\<close>. The tensor is
  mutated in place, so the rows written before an exception stay written.\<close>

fun update_cache_keys :: "tensor3 \<Rightarrow> (nat \<times> vec) list \<Rightarrow> exn option \<times> tensor3" where
  "update_cache_keys mk [] = (None, mk)"
| "update_cache_keys mk ((tar, feat) # rest) =
     (case update_row mk tar feat of
        Inl e \<Rightarrow> (Some e, mk)
      | Inr mk' \<Rightarrow> update_cache_keys mk' rest)"

section \<open>Training loop\<close>

text \<open>The local variables of \<^verbatim>\<open>train_model\<close>, on top of the store and the log.
  \<^verbatim>\<open>meta_query\<close>, \<^verbatim>\<open>meta_key\<close> and \<^verbatim>\<open>image_features\<close> are assigned only on some
  paths and read on others: \<open>None\<close> stands for "not bound". \<open>best_model\<close> and the
  function's \<open>model\<close> argument are addresses in the store.\<close>

record ('p, 'o, 'img) tstate = "('p, 'img) world" +
  optimizer :: 'o
  target_features :: tensor2
  meta_query :: "tensor2 option"
  meta_key :: "tensor3 option"
  image_features :: "tensor2 option"
  count_iters :: int
  best_acc :: real
  best_model :: nat
  acc_train :: real
  tot_samples :: nat
  loss_epoch :: real

text \<open>Lines 129--131: the condition under which the target features are recomputed.\<close>

definition target_update_needed :: "args \<Rightarrow> string \<Rightarrow> bool" where
  "target_update_needed a task_type \<longleftrightarrow>
     (enable_lora a \<and> task_type = ''image2text'' \<and> (encoder a = ''text'' \<or> encoder a = ''both'')) \<or>
     (enable_lora a \<and> task_type = ''image2image'' \<and> (encoder a = ''vision'' \<or> encoder a = ''both'')) \<or>
     enable_BitFit a"

text \<open>Lines 129--132.\<close>

definition load_label_features ::
  "('p, 'o, 'img, 'ds) env \<Rightarrow> args \<Rightarrow> nat \<Rightarrow> 'ds \<Rightarrow> 'img loader \<Rightarrow> string \<Rightarrow>
   ('p, 'o, 'img) tstate \<Rightarrow> ('p, 'o, 'img) tstate" where
  "load_label_features E a m dataset target_loader task_type s =
     (if target_update_needed a task_type then
        (if task_type = ''image2text''
         then log_event (GetTextTargetFeatures m)
                (s\<lparr>target_features := get_text_target_features E (heap s ! m) dataset\<rparr>)
         else log_event (GetVisionTargetFeatures m)
                (s\<lparr>target_features := get_vision_target_features E (heap s ! m) target_loader\<rparr>))
      else s)"

text \<open>Lines 134--137.\<close>

definition forward_images ::
  "('p, 'o, 'img, 'ds) env \<Rightarrow> args \<Rightarrow> nat \<Rightarrow> 'img list \<Rightarrow>
   ('p, 'o, 'img) tstate \<Rightarrow> ('p, 'o, 'img) tstate" where
  "forward_images E a m imgs s =
     (if encoder a = ''vision'' \<or> encoder a = ''both''
      then log_event (EncodeImage m)
             (s\<lparr>image_features := Some (normalize_rows (encode_image E (heap s ! m) imgs))\<rparr>)
      else s)"

text \<open>Lines 139--146. Reading a local that was never assigned raises
  \<^verbatim>\<open>UnboundLocalError\<close>.\<close>

definition forward_similarity ::
  "('p, 'o, 'img, 'ds) env \<Rightarrow> args \<Rightarrow> nat \<Rightarrow> real \<Rightarrow> ('p, 'o, 'img) tstate \<Rightarrow>
   (exn + tensor2 \<times> reference) \<times> ('p, 'o, 'img) tstate" where
  "forward_similarity E a m logit_scale s =
     (if enable_MetaAdapter a then
        (case meta_query s of
           None \<Rightarrow> (Inl (UnboundLocalError ''meta_query''), s)
         | Some q \<Rightarrow>
             (case meta_key s of
                None \<Rightarrow> (Inl (UnboundLocalError ''meta_key''), s)
              | Some k \<Rightarrow>
                  (let meta_adaptation = meta_adapter E (heap s ! m) q k k;
                       s1 = log_event (MetaAdapter m) s
                   in case image_features s1 of
                        None \<Rightarrow> (Inl (UnboundLocalError ''image_features''), s1)
                      | Some f \<Rightarrow>
                          (Inr (cosine_similarity logit_scale f meta_adaptation,
                                AdaptedRef q k), s1))))
      else
        (case image_features s of
           None \<Rightarrow> (Inl (UnboundLocalError ''image_features''), s)
         | Some f \<Rightarrow>
             (Inr (cosine_similarity logit_scale f (target_features s),
                   StaticRef (target_features s)), s)))"

text \<open>Lines 148--158: the running sums, then the scaled backward pass, the optimizer
  step, the scaler update and the scheduler step, which together change the
  parameters of the live model and the optimizer state.\<close>

definition backward_step ::
  "('p, 'o, 'img, 'ds) env \<Rightarrow> nat \<Rightarrow> real \<Rightarrow> 'img list \<Rightarrow> nat list \<Rightarrow> tensor2 \<Rightarrow>
   reference \<Rightarrow> ('p, 'o, 'img) tstate \<Rightarrow> ('p, 'o, 'img) tstate" where
  "backward_step E m logit_scale imgs target sim ref s =
     (let s1 = s\<lparr>acc_train := acc_train s + cls_acc E sim target * real (length target),
                 loss_epoch := loss_epoch s + cross_entropy E sim target * real (length target),
                 tot_samples := tot_samples s + length target\<rparr>;
          stepped = optimizer_step E (optimizer s1) (heap s1 ! m) imgs target ref logit_scale
      in log_event (OptimizerStep m)
           (s1\<lparr>optimizer := fst stepped,
               heap := (heap s1)[m := (heap s1 ! m)\<lparr>params := snd stepped\<rparr>]\<rparr>))"

text \<open>Lines 161--164. Both locals are bound whenever this point is reached with the
  meta-adapter enabled, since line 142 has read them.\<close>

definition update_memory ::
  "args \<Rightarrow> nat list \<Rightarrow> ('p, 'o, 'img) tstate \<Rightarrow> exn option \<times> ('p, 'o, 'img) tstate" where
  "update_memory a target s =
     (if enable_MetaAdapter a then
        (case image_features s of
           None \<Rightarrow> (Some (UnboundLocalError ''image_features''), s)
         | Some f \<Rightarrow>
             (case meta_key s of
                None \<Rightarrow> (Some (UnboundLocalError ''meta_key''), s)
              | Some k \<Rightarrow>
                  (case update_cache_keys k (zip target f) of
                     (e, k') \<Rightarrow> (e, s\<lparr>meta_key := Some k'\<rparr>))))
      else (None, s))"

text \<open>Lines 126--166: one pass through the body of the \<^verbatim>\<open>for\<close> loop, up to and
  including \<^verbatim>\<open>count_iters += 1\<close>.\<close>

definition train_batch ::
  "('p, 'o, 'img, 'ds) env \<Rightarrow> args \<Rightarrow> nat \<Rightarrow> real \<Rightarrow> 'ds \<Rightarrow> 'img loader \<Rightarrow> string \<Rightarrow>
   'img batch \<Rightarrow> ('p, 'o, 'img) tstate \<Rightarrow> exn option \<times> ('p, 'o, 'img) tstate" where
  "train_batch E a m logit_scale dataset target_loader task_type b s =
     (case b of (imgs, target, target_f) \<Rightarrow>
        (case forward_similarity E a m logit_scale
                (forward_images E a m imgs
                   (load_label_features E a m dataset target_loader task_type s)) of
           (Inl e, s2) \<Rightarrow> (Some e, s2)
         | (Inr (sim, ref), s2) \<Rightarrow>
             (case update_memory a target
                     (backward_step E m logit_scale imgs target sim ref s2) of
                (Some e, s3) \<Rightarrow> (Some e, s3)
              | (None, s3) \<Rightarrow> (None, s3\<lparr>count_iters := count_iters s3 + 1\<rparr>))))"

text \<open>Lines 125--168: the \<^verbatim>\<open>for\<close> loop over the training loader, left by \<^verbatim>\<open>break\<close> as
  soon as the counter equals \<open>total_iters\<close>.\<close>

fun train_epoch ::
  "('p, 'o, 'img, 'ds) env \<Rightarrow> args \<Rightarrow> nat \<Rightarrow> real \<Rightarrow> 'ds \<Rightarrow> 'img loader \<Rightarrow> string \<Rightarrow>
   int \<Rightarrow> 'img loader \<Rightarrow> ('p, 'o, 'img) tstate \<Rightarrow> exn option \<times> ('p, 'o, 'img) tstate" where
  "train_epoch E a m logit_scale dataset target_loader task_type total_iters [] s = (None, s)"
| "train_epoch E a m logit_scale dataset target_loader task_type total_iters (b # bs) s =
     (case train_batch E a m logit_scale dataset target_loader task_type b s of
        (Some e, s') \<Rightarrow> (Some e, s')
      | (None, s') \<Rightarrow>
          if count_iters s' = total_iters then (None, s')
          else train_epoch E a m logit_scale dataset target_loader task_type total_iters bs s')"

text \<open>Lines 170--174.\<close>

definition epoch_log ::
  "('p, 'o, 'img, 'ds) env \<Rightarrow> int \<Rightarrow> ('p, 'o, 'img) tstate \<Rightarrow>
   exn option \<times> ('p, 'o, 'img) tstate" where
  "epoch_log E total_iters s =
     (if count_iters s < total_iters then
        (if tot_samples s = 0 then (Some ZeroDivisionError, s)
         else
           (let s1 = s\<lparr>acc_train := acc_train s / real (tot_samples s),
                       loss_epoch := loss_epoch s / real (tot_samples s)\<rparr>
            in (None, log_event (PrintTrain (get_last_lr E (optimizer s1)) (acc_train s1)
                                   (loss_epoch s1)) s1)))
      else (None, s))"

text \<open>The two calls of the evaluation loop, lines 177 and 186, have the same form:
  \<^verbatim>\<open>eval_model(args, mdl, logit_scale, loader, val_loader, target_features,
  meta_query=meta_query, meta_key=meta_key)\<close>. The fifth and sixth positional arguments
  land in the parameters \<^verbatim>\<open>target_features\<close> and \<^verbatim>\<open>support_img_loader\<close>. The arguments
  are evaluated before the call, so an unbound \<^verbatim>\<open>meta_query\<close> raises at the call site.\<close>

definition call_eval_model ::
  "('p, 'o, 'img, 'ds) env \<Rightarrow> args \<Rightarrow> nat \<Rightarrow> real \<Rightarrow> 'img loader \<Rightarrow> 'img loader \<Rightarrow>
   ('p, 'o, 'img) tstate \<Rightarrow> (exn + 'img eval_result) \<times> ('p, 'o, 'img) tstate" where
  "call_eval_model E a mdl logit_scale loader val_loader s =
     (case meta_query s of
        None \<Rightarrow> (Inl (UnboundLocalError ''meta_query''), s)
      | Some q \<Rightarrow>
          (case meta_key s of
             None \<Rightarrow> (Inl (UnboundLocalError ''meta_key''), s)
           | Some k \<Rightarrow>
               eval_model E a mdl logit_scale loader (PyLoader val_loader)
                 (PyTensor (target_features s)) (Some q) (Some k)
                 (log_event (EvalModel mdl (PyLoader loader) (PyLoader val_loader)
                               (PyTensor (target_features s))) s)))"

text \<open>Lines 181--183: \<^verbatim>\<open>copy.deepcopy(model).to('cpu')\<close> allocates a new object.\<close>

definition save_best ::
  "nat \<Rightarrow> real \<Rightarrow> ('p, 'o, 'img) tstate \<Rightarrow> ('p, 'o, 'img) tstate" where
  "save_best m acc_val s =
     (if acc_val > best_acc s
      then log_event (DeepCopy m (length (heap s)))
             (s\<lparr>best_acc := acc_val,
                best_model := length (heap s),
                heap := heap s @ [(heap s ! m)\<lparr>device := CPU\<rparr>]\<rparr>)
      else s)"

text \<open>Lines 170--183: what follows the \<^verbatim>\<open>for\<close> loop inside the \<^verbatim>\<open>while\<close> body.\<close>

definition after_epoch ::
  "('p, 'o, 'img, 'ds) env \<Rightarrow> args \<Rightarrow> nat \<Rightarrow> real \<Rightarrow> 'img loader \<Rightarrow> int \<Rightarrow>
   ('p, 'o, 'img) tstate \<Rightarrow> exn option \<times> ('p, 'o, 'img) tstate" where
  "after_epoch E a m logit_scale val_loader total_iters s =
     (case epoch_log E total_iters s of
        (Some e, s1) \<Rightarrow> (Some e, s1)
      | (None, s1) \<Rightarrow>
          (case call_eval_model E a m logit_scale val_loader val_loader
                  (set_training m False s1) of
             (Inl e, s2) \<Rightarrow> (Some e, s2)
           | (Inr r, s2) \<Rightarrow> (None, save_best m (acc r) (log_event (PrintVal (acc r)) s2))))"

text \<open>Lines 121--124.\<close>

definition begin_epoch :: "nat \<Rightarrow> ('p, 'o, 'img) tstate \<Rightarrow> ('p, 'o, 'img) tstate" where
  "begin_epoch m s = (set_training m True s)\<lparr>acc_train := 0, tot_samples := 0, loss_epoch := 0\<rparr>"

text \<open>Lines 121--183: the body of the \<^verbatim>\<open>while\<close> loop.\<close>

definition run_epoch ::
  "('p, 'o, 'img, 'ds) env \<Rightarrow> args \<Rightarrow> nat \<Rightarrow> real \<Rightarrow> 'ds \<Rightarrow> 'img loader \<Rightarrow> 'img loader \<Rightarrow>
   'img loader \<Rightarrow> string \<Rightarrow> int \<Rightarrow> ('p, 'o, 'img) tstate \<Rightarrow>
   exn option \<times> ('p, 'o, 'img) tstate" where
  "run_epoch E a m logit_scale dataset train_loader val_loader target_loader task_type total_iters s =
     (case train_epoch E a m logit_scale dataset target_loader task_type total_iters
             train_loader (begin_epoch m s) of
        (Some e, s1) \<Rightarrow> (Some e, s1)
      | (None, s1) \<Rightarrow> after_epoch E a m logit_scale val_loader total_iters s1)"

section \<open>Progress of one pass through the \<^verbatim>\<open>while\<close> body\<close>

text \<open>The evaluation loop changes nothing but the store and the log; a batch that
  completes advances the counter by one; a pass of the \<^verbatim>\<open>while\<close> body that completes
  has advanced the counter, because an empty training loader makes line 171 divide by
  zero. These facts give the termination of the \<^verbatim>\<open>while\<close> loop.\<close>

lemma train_batch_count:
  "train_batch E a m ls ds tgl task b s = (None, s') \<Longrightarrow> count_iters s' = count_iters s + 1"
  by (auto simp: train_batch_def forward_similarity_def forward_images_def load_label_features_def
       backward_step_def update_memory_def log_event_def Let_def
       split: prod.splits sum.splits option.splits if_splits)

lemma train_epoch_count:
  "train_epoch E a m ls ds tgl task T bs s = (None, s') \<Longrightarrow> count_iters s < T \<Longrightarrow>
   (bs = [] \<longrightarrow> s' = s) \<and> (bs \<noteq> [] \<longrightarrow> count_iters s < count_iters s' \<and> count_iters s' \<le> T)"
proof (induction bs arbitrary: s)
  case Nil
  then show ?case by simp
next
  case (Cons b bs)
  then obtain s1 where b: "train_batch E a m ls ds tgl task b s = (None, s1)"
    by (auto split: prod.splits option.splits)
  have c: "count_iters s1 = count_iters s + 1" using train_batch_count[OF b] .
  show ?case
  proof (cases "count_iters s1 = T")
    case True
    with Cons.prems b c show ?thesis by simp
  next
    case False
    with Cons.prems b have r: "train_epoch E a m ls ds tgl task T bs s1 = (None, s')" by simp
    from False c Cons.prems have lt: "count_iters s1 < T" by simp
    from Cons.IH[OF r lt] c lt show ?thesis by auto
  qed
qed

lemma eval_batch_frame:
  "eval_batch E a m ls tf mq mk b r w = (x, w') \<Longrightarrow> w' = w\<lparr>heap := heap w', trace := trace w'\<rparr>"
  by (auto simp: eval_batch_def Let_def log_event_def
      split: prod.splits sum.splits option.splits if_splits pyval.splits)

lemma eval_loop_frame:
  "eval_loop E a m ls tf mq mk bs r w = (x, w') \<Longrightarrow> w' = w\<lparr>heap := heap w', trace := trace w'\<rparr>"
proof (induction bs arbitrary: r w)
  case Nil
  then show ?case by simp
next
  case (Cons b bs)
  obtain y w1 where b: "eval_batch E a m ls tf mq mk b r w = (y, w1)"
    by (cases "eval_batch E a m ls tf mq mk b r w")
  note f1 = eval_batch_frame[OF b]
  show ?case
  proof (cases y)
    case (Inl e)
    with Cons.prems b f1 show ?thesis by simp
  next
    case (Inr r')
    with Cons.prems b have "eval_loop E a m ls tf mq mk bs r' w1 = (x, w')" by simp
    from Cons.IH[OF this] have "w' = w1\<lparr>heap := heap w', trace := trace w'\<rparr>" .
    also have "\<dots> = w\<lparr>heap := heap w', trace := trace w'\<rparr>" by (subst f1) simp
    finally show ?thesis .
  qed
qed

lemma eval_meta_init_frame:
  "eval_meta_init E a m tf sp mq mk w = (x, w') \<Longrightarrow> w' = w\<lparr>heap := heap w', trace := trace w'\<rparr>"
  by (auto simp: eval_meta_init_def Let_def log_event_def
      split: prod.splits sum.splits option.splits if_splits pyval.splits)

lemma eval_model_frame:
  assumes "eval_model E a m ls l tf sp mq mk w = (x, w')"
  shows "w' = w\<lparr>heap := heap w', trace := trace w'\<rparr>"
proof (cases "(mk = None \<or> mq = None) \<and> sp = PyNone")
  case True
  with assms show ?thesis by (simp add: eval_model_def)
next
  case False
  obtain y w1 where i: "eval_meta_init E a m tf sp mq mk (set_training m False w) = (y, w1)"
    by (cases "eval_meta_init E a m tf sp mq mk (set_training m False w)")
  from eval_meta_init_frame[OF i]
  have f1: "w1 = w\<lparr>heap := heap w1, trace := trace w1\<rparr>" by (simp add: set_training_def)
  show ?thesis
  proof (cases y)
    case (Inl e)
    with assms False i f1 show ?thesis by (simp add: eval_model_def)
  next
    case (Inr qk)
    obtain q k where qk: "qk = (q, k)" by (cases qk)
    obtain z w2 where l: "eval_loop E a m ls tf q k l eval_acc0 w1 = (z, w2)"
      by (cases "eval_loop E a m ls tf q k l eval_acc0 w1")
    from eval_loop_frame[OF l] have "w2 = w1\<lparr>heap := heap w2, trace := trace w2\<rparr>" .
    also have "\<dots> = w\<lparr>heap := heap w2, trace := trace w2\<rparr>" by (subst f1) simp
    finally have f2: "w2 = w\<lparr>heap := heap w2, trace := trace w2\<rparr>" .
    from assms False i Inr qk l have "w' = w2"
      by (auto simp: eval_model_def split: sum.splits if_splits)
    with f2 show ?thesis by simp
  qed
qed

lemma call_eval_model_frame:
  assumes "call_eval_model E a mdl ls l vl s = (x, s')"
  shows "s' = s\<lparr>heap := heap s', trace := trace s'\<rparr>"
proof (cases "meta_query s")
  case None
  with assms show ?thesis by (simp add: call_eval_model_def)
next
  case (Some q)
  show ?thesis
  proof (cases "meta_key s")
    case None
    with assms Some show ?thesis by (simp add: call_eval_model_def)
  next
    case (Some k)
    with assms \<open>meta_query s = Some q\<close>
    have "eval_model E a mdl ls l (PyLoader vl) (PyTensor (target_features s)) (Some q) (Some k)
            (log_event (EvalModel mdl (PyLoader l) (PyLoader vl) (PyTensor (target_features s))) s)
          = (x, s')"
      by (simp add: call_eval_model_def)
    from eval_model_frame[OF this] show ?thesis by (simp add: log_event_def)
  qed
qed

lemma after_epoch_count:
  assumes "after_epoch E a m ls vl T s = (None, s')"
  shows "count_iters s' = count_iters s \<and> (count_iters s < T \<longrightarrow> tot_samples s \<noteq> 0)"
proof -
  from assms obtain s1 r s2 where
    l: "epoch_log E T s = (None, s1)" and
    c: "call_eval_model E a m ls vl vl (set_training m False s1) = (Inr r, s2)" and
    s': "s' = save_best m (acc r) (log_event (PrintVal (acc r)) s2)"
    by (auto simp: after_epoch_def split: prod.splits option.splits sum.splits)
  from l have 1: "count_iters s1 = count_iters s" "count_iters s < T \<longrightarrow> tot_samples s \<noteq> 0"
    by (auto simp: epoch_log_def log_event_def Let_def split: if_splits)
  from arg_cong[OF call_eval_model_frame[OF c], of count_iters]
  have 2: "count_iters s2 = count_iters s1" by (simp add: set_training_def)
  from s' have "count_iters s' = count_iters s2" by (simp add: save_best_def log_event_def)
  with 1 2 show ?thesis by simp
qed

lemma run_epoch_progress:
  "run_epoch E a m ls ds trl vl tgl task T s = (None, s') \<Longrightarrow> count_iters s < T \<Longrightarrow>
   count_iters s < count_iters s' \<and> count_iters s' \<le> T"
proof -
  assume r: "run_epoch E a m ls ds trl vl tgl task T s = (None, s')" and lt: "count_iters s < T"
  from r obtain s1 where
    e: "train_epoch E a m ls ds tgl task T trl (begin_epoch m s) = (None, s1)" and
    f: "after_epoch E a m ls vl T s1 = (None, s')"
    by (auto simp: run_epoch_def split: prod.splits option.splits)
  have c0: "count_iters (begin_epoch m s) = count_iters s" "tot_samples (begin_epoch m s) = 0"
    by (simp_all add: begin_epoch_def set_training_def)
  from lt have lt0: "count_iters (begin_epoch m s) < T" by (simp add: c0)
  from train_epoch_count[OF e lt0]
  have alt: "trl = [] \<longrightarrow> s1 = begin_epoch m s"
     "trl \<noteq> [] \<longrightarrow> count_iters s < count_iters s1 \<and> count_iters s1 \<le> T" by (simp_all add: c0)
  from after_epoch_count[OF f]
  have g: "count_iters s' = count_iters s1" "count_iters s1 < T \<longrightarrow> tot_samples s1 \<noteq> 0" by simp_all
  show ?thesis
  proof (cases "trl = []")
    case True
    with alt c0 lt g show ?thesis by simp
  next
    case False
    with alt g show ?thesis by simp
  qed
qed

text \<open>Lines 120--183: the \<^verbatim>\<open>while\<close> loop.\<close>

function train_loop ::
  "('p, 'o, 'img, 'ds) env \<Rightarrow> args \<Rightarrow> nat \<Rightarrow> real \<Rightarrow> 'ds \<Rightarrow> 'img loader \<Rightarrow> 'img loader \<Rightarrow>
   'img loader \<Rightarrow> string \<Rightarrow> int \<Rightarrow> ('p, 'o, 'img) tstate \<Rightarrow>
   exn option \<times> ('p, 'o, 'img) tstate" where
  "train_loop E a m logit_scale dataset train_loader val_loader target_loader task_type total_iters s =
     (if count_iters s < total_iters then
        (case run_epoch E a m logit_scale dataset train_loader val_loader target_loader
                task_type total_iters s of
           (Some e, s') \<Rightarrow> (Some e, s')
         | (None, s') \<Rightarrow>
             train_loop E a m logit_scale dataset train_loader val_loader target_loader
               task_type total_iters s')
      else (None, s))"
  by pat_completeness auto

termination
  apply (relation "measure (\<lambda>(E, a, m, ls, ds, trl, vl, tgl, task, T, s). nat (T - count_iters s))")
   apply simp
  apply (auto dest!: run_epoch_progress[OF sym])
  done

text \<open>\<^verbatim>\<open>os.path.join(a, b)\<close> on a POSIX system.\<close>

definition os_path_join :: "string \<Rightarrow> string \<Rightarrow> string" where
  "os_path_join p q =
     (if q \<noteq> [] \<and> hd q = CHR ''/'' then q
      else if p = [] \<or> last p = CHR ''/'' then p @ q
      else p @ ''/'' @ q)"

text \<open>Lines 102--107.\<close>

definition meta_setup ::
  "('p, 'o, 'img, 'ds) env \<Rightarrow> args \<Rightarrow> nat \<Rightarrow> 'img loader \<Rightarrow>
   ('p, 'o, 'img) tstate \<Rightarrow> exn option \<times> ('p, 'o, 'img) tstate" where
  "meta_setup E a m val_loader s =
     (if enable_MetaAdapter a then
        (let s1 = set_training m False s;
             support_features = get_vision_target_features E (heap s1 ! m) val_loader;
             s2 = (log_event (GetVisionTargetFeatures m) s1)\<lparr>meta_query := Some (target_features s1)\<rparr>
         in case reshape3 (shape0 (target_features s2)) (shape1 (target_features s2))
                   support_features of
              Inl e \<Rightarrow> (Some e, s2)
            | Inr k \<Rightarrow> (None, s2\<lparr>meta_key := Some k\<rparr>))
      else (None, s))"

text \<open>Lines 185--197.\<close>

definition finish ::
  "('p, 'o, 'img, 'ds) env \<Rightarrow> args \<Rightarrow> real \<Rightarrow> 'img loader \<Rightarrow> 'img loader \<Rightarrow>
   ('p, 'o, 'img) tstate \<Rightarrow> exn option \<times> ('p, 'o, 'img) tstate" where
  "finish E a logit_scale test_loader val_loader s =
     (let s1 = s\<lparr>heap := (heap s)[best_model s := (heap s ! best_model s)\<lparr>device := CUDA\<rparr>]\<rparr>
      in case call_eval_model E a (best_model s1) logit_scale test_loader val_loader s1 of
           (Inl e, s2) \<Rightarrow> (Some e, s2)
         | (Inr r, s2) \<Rightarrow>
             (let s3 = log_event (PrintTest (acc r)) s2
              in case save_path a of
                   None \<Rightarrow> (None, s3)
                 | Some p \<Rightarrow>
                     (let full_path = os_path_join p (filename a @ ''.pth'')
                      in (None, log_event (PrintSaved full_path)
                                  (log_event (TorchSave (best_model s3) full_path) s3)))))"

text \<open>The state at line 118. A record needs every field from the start: the
  accumulators, which lines 122--124 assign before any read, start at 0, and the
  optimizer, whose construction reads only the parameters, the learning rate and
  \<open>total_iters\<close>, is built here rather than after the meta-adapter set-up.\<close>

definition init_state ::
  "('p, 'o, 'img, 'ds) env \<Rightarrow> args \<Rightarrow> 'p module list \<Rightarrow> nat \<Rightarrow> tensor2 \<Rightarrow>
   ('p, 'o, 'img) tstate" where
  "init_state E a h m tf =
     \<lparr>heap = h, trace = [],
      optimizer = new_optimizer E (params (h ! m)) (lr a) (n_iters a * shots a),
      target_features = tf, meta_query = None, meta_key = None, image_features = None,
      count_iters = 0, best_acc = 0, best_model = m,
      acc_train = 0, tot_samples = 0, loss_epoch = 0\<rparr>"

text \<open>\<^verbatim>\<open>train_model\<close>, lines 94--199. The result is the exception that ended the run, if
  any, and the state reached.\<close>

definition train_model ::
  "('p, 'o, 'img, 'ds) env \<Rightarrow> args \<Rightarrow> 'p module list \<Rightarrow> nat \<Rightarrow> real \<Rightarrow> 'ds \<Rightarrow>
   'img loader \<Rightarrow> 'img loader \<Rightarrow> 'img loader \<Rightarrow> 'img loader \<Rightarrow> tensor2 \<Rightarrow> string \<Rightarrow>
   exn option \<times> ('p, 'o, 'img) tstate" where
  "train_model E a h m logit_scale dataset train_loader val_loader test_loader target_loader tf task_type =
     (case meta_setup E a m val_loader (init_state E a h m tf) of
        (Some e, s1) \<Rightarrow> (Some e, s1)
      | (None, s1) \<Rightarrow>
          (case train_loop E a m logit_scale dataset train_loader val_loader target_loader
                  task_type (n_iters a * shots a) s1 of
             (Some e, s2) \<Rightarrow> (Some e, s2)
           | (None, s2) \<Rightarrow> finish E a logit_scale test_loader val_loader s2))"

section \<open>Notions used in the statements\<close>

text \<open>The reference set with its classes reordered: row \<open>k\<close> of the result is row
  \<open>p k\<close> of \<open>R\<close>.\<close>

definition permute_rows :: "(nat \<Rightarrow> nat) \<Rightarrow> 'a list \<Rightarrow> 'a list" where
  "permute_rows p R = map (\<lambda>k. R ! p k) [0..<length R]"




text \<open>Classes of log entries: those a training step writes, those the evaluation loop
  writes, and the per-epoch reports (the training summary line and the calls of the
  evaluation loop).\<close>

definition batch_event :: "nat \<Rightarrow> 'img event \<Rightarrow> bool" where
  "batch_event m e \<longleftrightarrow>
     e = EncodeImage m \<or> e = MetaAdapter m \<or> e = GetVisionTargetFeatures m \<or>
     e = GetTextTargetFeatures m \<or> e = OptimizerStep m"

definition eval_event :: "nat \<Rightarrow> 'img event \<Rightarrow> bool" where
  "eval_event m e \<longleftrightarrow>
     e = EncodeImage m \<or> e = MetaAdapter m \<or> e = GetVisionTargetFeatures m"

definition is_step :: "'img event \<Rightarrow> bool" where
  "is_step e = (case e of OptimizerStep _ \<Rightarrow> True | _ \<Rightarrow> False)"

definition optimizer_steps :: "'img event list \<Rightarrow> nat" where
  "optimizer_steps tr = length (filter is_step tr)"

definition is_target_call :: "'img event \<Rightarrow> bool" where
  "is_target_call e =
     (case e of GetTextTargetFeatures _ \<Rightarrow> True | GetVisionTargetFeatures _ \<Rightarrow> True | _ \<Rightarrow> False)"

definition target_feature_calls :: "'img event list \<Rightarrow> nat" where
  "target_feature_calls tr = length (filter is_target_call tr)"

definition is_report :: "'img event \<Rightarrow> bool" where
  "is_report e = (case e of PrintTrain _ _ _ \<Rightarrow> True | EvalModel _ _ _ _ \<Rightarrow> True | _ \<Rightarrow> False)"

definition reports :: "'img event list \<Rightarrow> 'img event list" where
  "reports tr = filter is_report tr"

text \<open>Everything that happens only once an evaluation has been started from
  \<^verbatim>\<open>train_model\<close>: the call itself, the accuracy lines, the snapshot, the saved file.\<close>

definition is_selection :: "'img event \<Rightarrow> bool" where
  "is_selection e =
     (case e of EvalModel _ _ _ _ \<Rightarrow> True | PrintVal _ \<Rightarrow> True | PrintTest _ \<Rightarrow> True
      | DeepCopy _ _ \<Rightarrow> True | TorchSave _ _ \<Rightarrow> True | PrintSaved _ \<Rightarrow> True | _ \<Rightarrow> False)"

text \<open>What no training step touches: the bound meta query, the recorded best accuracy,
  the best-model reference, the number of objects in the store and every object other
  than the live model; and a training step appends only its own kind of log entries.\<close>

definition batch_frame ::
  "nat \<Rightarrow> ('p, 'o, 'img) tstate \<Rightarrow> ('p, 'o, 'img) tstate \<Rightarrow> bool" where
  "batch_frame m s s' \<longleftrightarrow>
     meta_query s' = meta_query s \<and> best_acc s' = best_acc s \<and> best_model s' = best_model s \<and>
     length (heap s') = length (heap s) \<and> (\<forall>ad. ad \<noteq> m \<longrightarrow> heap s' ! ad = heap s ! ad) \<and>
     (\<exists>evs. trace s' = trace s @ evs \<and> list_all (batch_event m) evs)"

text \<open>What holds between any two points of a run of the \<^verbatim>\<open>while\<close> loop: the meta query
  stays as bound, objects are only added to the store, every object other than the
  live model stays as it is, the recorded best accuracy and the counter do not
  decrease.\<close>

definition run_frame ::
  "nat \<Rightarrow> ('p, 'o, 'img) tstate \<Rightarrow> ('p, 'o, 'img) tstate \<Rightarrow> bool" where
  "run_frame m s s' \<longleftrightarrow>
     meta_query s' = meta_query s \<and> length (heap s) \<le> length (heap s') \<and>
     (\<forall>ad<length (heap s). ad \<noteq> m \<longrightarrow> heap s' ! ad = heap s ! ad) \<and>
     best_acc s \<le> best_acc s' \<and> count_iters s \<le> count_iters s'"

text \<open>The best-model reference at any point of a run: as long as the recorded best
  accuracy is the initial 0 the best model is the live model itself; once it is above
  0 the best model is another object of the store.\<close>

definition snapshot_inv :: "nat \<Rightarrow> ('p, 'o, 'img) tstate \<Rightarrow> bool" where
  "snapshot_inv m s \<longleftrightarrow>
     m < length (heap s) \<and>
     (best_acc s = 0 \<and> best_model s = m \<or>
      0 < best_acc s \<and> best_model s \<noteq> m \<and> best_model s < length (heap s))"

section \<open>A small concrete instance\<close>

text \<open>Images are numbers; the encoder sends an even image to the first unit vector and
  an odd one to the second; the parameters and the optimizer state count the updates
  applied; the meta-adapter returns the category embeddings it is given.\<close>

definition demo_env :: "(nat, nat, nat, unit) env" where
  "demo_env =
     \<lparr>encode_image = (\<lambda>mdl imgs. map (\<lambda>i. if even i then [1, 0] else [0, 1]) imgs),
      meta_adapter = (\<lambda>mdl q k v. q),
      get_text_target_features = (\<lambda>mdl ds. [[1, 0], [0, 1]]),
      get_vision_target_features =
        (\<lambda>mdl l. concat (map (\<lambda>(imgs, target, target_f).
                                  map (\<lambda>i. if even i then [1, 0] else [0, 1]) imgs) l)),
      cls_acc = cls_acc_spec,
      cross_entropy = (\<lambda>S target. 0),
      new_optimizer = (\<lambda>p rate T. 0),
      optimizer_step = (\<lambda>opt mdl imgs target ref ls. (Suc opt, Suc (params mdl))),
      get_last_lr = (\<lambda>opt. 0)\<rparr>"

definition demo_args :: args where
  "demo_args =
     \<lparr>enable_lora = False, enable_BitFit = False, enable_MetaAdapter = False,
      encoder = ''vision'', n_iters = 2, shots = 4, lr = 1 / 1000,
      save_path = None, filename = ''best''\<rparr>"

definition demo_heap :: "nat module list" where
  "demo_heap = [\<lparr>params = 0, training = False, device = CUDA\<rparr>]"

definition demo_world :: "(nat, nat) world" where
  "demo_world = \<lparr>heap = demo_heap, trace = []\<rparr>"

definition demo_loader :: "nat loader" where
  "demo_loader = [([0], [0], []), ([1], [1], []), ([2], [1], [])]"

definition demo_targets :: tensor2 where
  "demo_targets = [[1, 0], [0, 1]]"

text \<open>The permutation of two classes that exchanges them.\<close>

definition swap01 :: "nat \<Rightarrow> nat" where
  "swap01 k = 1 - k"




text \<open>A run with the meta-adapter: two classes, one support image per class,
  \<open>total_iters = 2\<close>, a training loader of one batch; and a validation loader whose
  labels are all wrong for the encoder above.\<close>

definition demo_meta_args :: args where
  "demo_meta_args = demo_args\<lparr>enable_MetaAdapter := True, n_iters := 1, shots := 2\<rparr>"

definition demo_train :: "nat loader" where
  "demo_train = [([0], [0], [])]"

definition demo_val :: "nat loader" where
  "demo_val = [([0, 1], [0, 1], [])]"

definition demo_val_wrong :: "nat loader" where
  "demo_val_wrong = [([0, 1], [1, 0], [])]"

text \<open>A test loader of one sample.\<close>

definition demo_test :: "nat loader" where
  "demo_test = [([1], [1], [])]"

text \<open>The state of the run with the meta-adapter when the \<^verbatim>\<open>while\<close> loop is entered.\<close>

definition demo_ready :: "(nat, nat, nat) tstate" where
  "demo_ready =
     snd (meta_setup demo_env demo_meta_args 0 demo_val
            (init_state demo_env demo_meta_args demo_heap 0 demo_targets))"

text \<open>The state of the meta-adapter run after a first validation, which takes a snapshot.\<close>

definition demo_snapshot :: "(nat, nat, nat) tstate" where
  "demo_snapshot = snd (after_epoch demo_env demo_meta_args 0 100 demo_val 0 demo_ready)"

section \<open>Evaluation loop: the configuration error\<close>

text \<open>
  Claim C6. When \<^verbatim>\<open>eval_model\<close> is given no \<^verbatim>\<open>support_img_loader\<close> and not both of
  \<^verbatim>\<open>meta_query\<close> and \<^verbatim>\<open>meta_key\<close>, it raises the \<^verbatim>\<open>ValueError\<close> that names the two
  alternatives, and it does so first: the store and the log are those it was called
  with, so the model was not switched to inference mode, no collaborator was called
  and no batch of the loader was read, whatever the loader holds. The guard does not
  look at \<^verbatim>\<open>enable_MetaAdapter\<close>, so this holds in particular when the meta-adapter
  path is active. The exception is returned as it is; no default takes its place.
\<close>

theorem eval_model_config_error:
  assumes "mq = None \<or> mk = None"
  shows "eval_model E a m logit_scale loader tf PyNone mq mk w =
           (Inl (ValueError ''Neither support_img_loader nor (meta_key and meta_query) provided. Please provide one of them.''), w)"
  using assms by (auto simp: eval_model_def)

theorem eval_model_config_error_witness:
  "eval_model demo_env (demo_args\<lparr>enable_MetaAdapter := True\<rparr>) 0 100 demo_loader
     (PyTensor demo_targets) PyNone None None demo_world =
   (Inl (ValueError ''Neither support_img_loader nor (meta_key and meta_query) provided. Please provide one of them.''), demo_world)"
  using eval_model_config_error [of None None demo_env "demo_args\<lparr>enable_MetaAdapter := True\<rparr>"
      0 100 demo_loader "PyTensor demo_targets" demo_world]
  by simp

section \<open>Similarity scorer\<close>

lemma dot_scale: "dot (map (\<lambda>x. c * x) u) v = c * dot u v"
  by (simp add: dot_def zip_map1 sum_list_const_mult[symmetric] comp_def case_prod_unfold mult.assoc)

lemma cosine_similarity_nth:
  "i < length Q \<Longrightarrow> k < length R \<Longrightarrow>
   cosine_similarity ls Q R ! i ! k = ls * dot (Q ! i) (R ! k)"
  by (simp add: cosine_similarity_def matmul_t_def scale_def dot_scale)

lemma cosine_similarity_shape:
  "length (cosine_similarity ls Q R) = length Q"
  "i < length Q \<Longrightarrow> length (cosine_similarity ls Q R ! i) = length R"
  by (simp_all add: cosine_similarity_def matmul_t_def scale_def)

lemma length_takeWhile_stops:
  "\<exists>x\<in>set xs. \<not> P x \<Longrightarrow> length (takeWhile P xs) < length xs"
  by (induction xs) auto

lemma argmax_first_max:
  assumes "xs \<noteq> []"
  shows "argmax xs < length xs" "xs ! argmax xs = Max (set xs)"
    "j < argmax xs \<Longrightarrow> xs ! j < xs ! argmax xs"
proof -
  let ?P = "\<lambda>v. v \<noteq> Max (set xs)"
  from assms have a: "argmax xs = length (takeWhile ?P xs)"
    by (cases xs) (simp_all add: argmax_def)
  from assms have "Max (set xs) \<in> set xs" by (intro Max_in) simp_all
  then have "\<exists>x\<in>set xs. \<not> ?P x" by blast
  then have lt: "length (takeWhile ?P xs) < length xs" by (rule length_takeWhile_stops)
  with a show 1: "argmax xs < length xs" by simp
  from nth_length_takeWhile[OF lt] a show 2: "xs ! argmax xs = Max (set xs)" by simp
  assume "j < argmax xs"
  with a have j: "j < length (takeWhile ?P xs)" by simp
  then have "takeWhile ?P xs ! j \<in> set (takeWhile ?P xs)" by (rule nth_mem)
  then have "?P (takeWhile ?P xs ! j)" by (rule set_takeWhileD[THEN conjunct2])
  with takeWhile_nth[OF j] have ne: "xs ! j \<noteq> Max (set xs)" by simp
  from j lt have "xs ! j \<in> set xs" by simp
  then have "xs ! j \<le> Max (set xs)" by simp
  with ne 2 show "xs ! j < xs ! argmax xs" by simp
qed

lemma set_permute_rows:
  assumes "bij_betw p {..<length xs} {..<length xs}"
  shows "set (permute_rows p xs) = set xs"
proof -
  have "set (permute_rows p xs) = (\<lambda>k. xs ! p k) ` {..<length xs}"
    by (auto simp: permute_rows_def)
  also have "\<dots> = (!) xs ` (p ` {..<length xs})" by (simp add: image_image)
  also from assms have "p ` {..<length xs} = {..<length xs}" by (simp add: bij_betw_def)
  also have "(!) xs ` {..<length xs} = set xs" using nth_image[of "length xs" xs] by (simp add: lessThan_atLeast0)
  finally show ?thesis .
qed

lemma cosine_similarity_permute:
  assumes "i < length Q" and "\<forall>k<length R. p k < length R"
  shows "cosine_similarity ls Q (permute_rows p R) ! i = permute_rows p (cosine_similarity ls Q R ! i)"
  using assms
  by (simp add: cosine_similarity_def matmul_t_def scale_def permute_rows_def)

text \<open>
  Claim C9 (as amended). The scorer is a function of its inputs alone. For a query batch
  \<open>Q\<close>, a reference set \<open>R\<close> of \<open>K\<close> rows and a row \<open>i\<close> of \<open>Q\<close>: the score matrix has
  one row per query and \<open>K\<close> entries in row \<open>i\<close>, entry \<open>k\<close> being
  \<open>logit_scale * (Q\<^sub>i \<cdot> R\<^sub>k)\<close>; for every permutation \<open>p\<close> of the \<open>K\<close> classes, entry \<open>k\<close> of
  row \<open>i\<close> computed against the permuted reference set is entry \<open>p k\<close> of row \<open>i\<close> computed
  against \<open>R\<close>. The prediction is the first index at which the row attains its
  maximum: it is a valid class, its score is the maximum and every earlier score is
  strictly smaller. The class predicted against the permuted set, \<open>p\<close> of the predicted
  index, always has the maximal score, and it is the class predicted against \<open>R\<close>
  whenever that class is the only one with the maximal score.
\<close>

theorem similarity_permutation:
  assumes p: "bij_betw p {..<length R} {..<length R}" and i: "i < length Q"
  shows "length (cosine_similarity ls Q R) = length Q \<and>
         length (cosine_similarity ls Q R ! i) = length R \<and>
         (\<forall>k<length R. cosine_similarity ls Q R ! i ! k = ls * dot (Q ! i) (R ! k)) \<and>
         (\<forall>k<length R. cosine_similarity ls Q (permute_rows p R) ! i ! k =
                           cosine_similarity ls Q R ! i ! p k) \<and>
         (R \<noteq> [] \<longrightarrow>
            argmax (cosine_similarity ls Q R ! i) < length R \<and>
            cosine_similarity ls Q R ! i ! argmax (cosine_similarity ls Q R ! i) =
              Max (set (cosine_similarity ls Q R ! i)) \<and>
            (\<forall>j<argmax (cosine_similarity ls Q R ! i).
               cosine_similarity ls Q R ! i ! j <
               cosine_similarity ls Q R ! i ! argmax (cosine_similarity ls Q R ! i)) \<and>
            cosine_similarity ls Q R ! i ! p (argmax (cosine_similarity ls Q (permute_rows p R) ! i)) =
              Max (set (cosine_similarity ls Q R ! i)) \<and>
            ((\<forall>k<length R. k \<noteq> argmax (cosine_similarity ls Q R ! i) \<longrightarrow>
                 cosine_similarity ls Q R ! i ! k <
                 cosine_similarity ls Q R ! i ! argmax (cosine_similarity ls Q R ! i)) \<longrightarrow>
             p (argmax (cosine_similarity ls Q (permute_rows p R) ! i)) =
               argmax (cosine_similarity ls Q R ! i)))"
proof -
  let ?xs = "cosine_similarity ls Q R ! i"
  let ?ys = "cosine_similarity ls Q (permute_rows p R) ! i"
  have len: "length ?xs = length R" using i by (rule cosine_similarity_shape)
  from p have pin: "\<forall>k<length R. p k < length R" by (auto simp: bij_betw_def)
  have ys: "?ys = permute_rows p ?xs" using i pin by (rule cosine_similarity_permute)
  from p len have p': "bij_betw p {..<length ?xs} {..<length ?xs}" by simp
  have nth_ys: "?ys ! k = ?xs ! p k" if "k < length R" for k
    using that len unfolding ys by (simp add: permute_rows_def)
  have 1: "length (cosine_similarity ls Q R) = length Q" by (rule cosine_similarity_shape)
  have 3: "\<forall>k<length R. ?xs ! k = ls * dot (Q ! i) (R ! k)"
    using i by (simp add: cosine_similarity_nth)
  have 4: "\<forall>k<length R. ?ys ! k = ?xs ! p k" using nth_ys by simp
  have 5: "argmax ?xs < length R \<and> ?xs ! argmax ?xs = Max (set ?xs) \<and>
           (\<forall>j<argmax ?xs. ?xs ! j < ?xs ! argmax ?xs) \<and>
           ?xs ! p (argmax ?ys) = Max (set ?xs) \<and>
           ((\<forall>k<length R. k \<noteq> argmax ?xs \<longrightarrow> ?xs ! k < ?xs ! argmax ?xs) \<longrightarrow>
             p (argmax ?ys) = argmax ?xs)" if ne: "R \<noteq> []"
  proof -
    from ne len have xne: "?xs \<noteq> []" by auto
    have ylen: "length ?ys = length R" unfolding ys by (simp add: permute_rows_def len)
    with ne have yne: "?ys \<noteq> []" by auto
    note ax = argmax_first_max[OF xne]
    note ay = argmax_first_max[OF yne]
    from ay(1) ylen have ky: "argmax ?ys < length R" by simp
    have "set ?ys = set ?xs" unfolding ys using p' by (rule set_permute_rows)
    with ay(2) nth_ys[OF ky] have m: "?xs ! p (argmax ?ys) = Max (set ?xs)" by simp
    from p ky have pk: "p (argmax ?ys) < length R" by (auto simp: bij_betw_def)
    have u: "p (argmax ?ys) = argmax ?xs"
      if "\<forall>k<length R. k \<noteq> argmax ?xs \<longrightarrow> ?xs ! k < ?xs ! argmax ?xs"
    proof (rule ccontr)
      assume "p (argmax ?ys) \<noteq> argmax ?xs"
      with that pk have "?xs ! p (argmax ?ys) < ?xs ! argmax ?xs" by blast
      with m ax(2) show False by simp
    qed
    from ax len m u show ?thesis by auto
  qed
  from 1 len 3 4 5 show ?thesis by blast
qed

theorem similarity_permutation_witness:
  "bij_betw swap01 {..<length [[1, 0], [0, 1::real]]} {..<length [[1, 0], [0, 1::real]]} \<and>
   (0::nat) < length [[3, 1::real]] \<and>
   cosine_similarity 2 [[3, 1]] [[1, 0], [0, 1]] ! 0 = [6, 2] \<and>
   cosine_similarity 2 [[3, 1]] (permute_rows swap01 [[1, 0], [0, 1]]) ! 0 = [2, 6] \<and>
   argmax (cosine_similarity 2 [[3, 1]] [[1, 0], [0, 1]] ! 0) = 0 \<and>
   swap01 (argmax (cosine_similarity 2 [[3, 1]] (permute_rows swap01 [[1, 0], [0, 1]]) ! 0)) = 0"
proof -
  have b: "bij_betw swap01 {..<length [[1, 0], [0, 1::real]]} {..<length [[1, 0], [0, 1::real]]}"
    by (auto simp: bij_betw_def inj_on_def swap01_def lessThan_Suc)
  have i: "(0::nat) < length [[3, 1::real]]" by simp
  show ?thesis
    using b i similarity_permutation [OF b i, of 2]
    by (simp add: cosine_similarity_def matmul_t_def scale_def dot_def permute_rows_def
        swap01_def argmax_def)
qed

text \<open>
  Claim C9 as stated fails on a tie: the query \<open>[1, 1]\<close> scores both classes of
  \<open>[[1, 0], [0, 1]]\<close> equally. Against \<open>R\<close> the first-max rule predicts class 0; against
  the swapped set it predicts index 0 again, which now stands for class 1. The scores
  have moved with their classes, the prediction has not.
\<close>

theorem similarity_permutation_tie_counterexample:
  "cosine_similarity 1 [[1, 1]] (permute_rows swap01 [[1, 0], [0, 1]]) ! 0 =
     permute_rows swap01 (cosine_similarity 1 [[1, 1]] [[1, 0], [0, 1]] ! 0) \<and>
   swap01 (argmax (cosine_similarity 1 [[1, 1]] (permute_rows swap01 [[1, 0], [0, 1]]) ! 0))
     \<noteq> argmax (cosine_similarity 1 [[1, 1]] [[1, 0], [0, 1]] ! 0)"
  by (simp add: cosine_similarity_def matmul_t_def scale_def dot_def permute_rows_def swap01_def argmax_def)

section \<open>Meta-adapter key memory\<close>





lemma update_row_index_error:
  "\<not> tar < length mk \<Longrightarrow> update_row mk tar feat = Inl IndexError"
  by (simp add: update_row_def shape0_def)




section \<open>Evaluation loop: accuracy\<close>









section \<open>Effects of the evaluation loop\<close>

lemma eval_event_simps:
  "eval_event m e \<Longrightarrow> \<not> is_step e \<and> \<not> is_report e \<and> \<not> is_selection e"
  by (auto simp: eval_event_def is_step_def is_report_def is_selection_def)

lemma batch_event_simps:
  "batch_event m e \<Longrightarrow> \<not> is_report e \<and> \<not> is_selection e"
  by (auto simp: batch_event_def is_report_def is_selection_def)

lemma eval_batch_effect:
  "eval_batch E a m ls tf mq mk b r w = (x, w') \<Longrightarrow>
   heap w' = heap w \<and> (\<exists>evs. trace w' = trace w @ evs \<and> list_all (eval_event m) evs)"
  by (auto simp: eval_batch_def Let_def log_event_def eval_event_def
      split: prod.splits sum.splits option.splits if_splits pyval.splits)

lemma eval_loop_effect:
  "eval_loop E a m ls tf mq mk bs r w = (x, w') \<Longrightarrow>
   heap w' = heap w \<and> (\<exists>evs. trace w' = trace w @ evs \<and> list_all (eval_event m) evs)"
proof (induction bs arbitrary: r w)
  case Nil
  then show ?case by simp
next
  case (Cons b bs)
  obtain y w1 where b: "eval_batch E a m ls tf mq mk b r w = (y, w1)"
    by (cases "eval_batch E a m ls tf mq mk b r w")
  from eval_batch_effect[OF b] obtain evs where
    1: "heap w1 = heap w" "trace w1 = trace w @ evs" "list_all (eval_event m) evs" by blast
  show ?case
  proof (cases y)
    case (Inl e)
    with Cons.prems b 1 show ?thesis by auto
  next
    case (Inr r')
    with Cons.prems b have "eval_loop E a m ls tf mq mk bs r' w1 = (x, w')" by simp
    from Cons.IH[OF this] obtain evs' where
      "heap w' = heap w1" "trace w' = trace w1 @ evs'" "list_all (eval_event m) evs'" by blast
    with 1 have "heap w' = heap w \<and> trace w' = trace w @ (evs @ evs') \<and>
      list_all (eval_event m) (evs @ evs')" by simp
    then show ?thesis by blast
  qed
qed

lemma eval_meta_init_effect:
  "eval_meta_init E a m tf sp mq mk w = (x, w') \<Longrightarrow>
   heap w' = heap w \<and> (\<exists>evs. trace w' = trace w @ evs \<and> list_all (eval_event m) evs)"
  by (auto simp: eval_meta_init_def Let_def log_event_def eval_event_def
      split: prod.splits sum.splits option.splits if_splits pyval.splits)

lemma eval_model_effect:
  assumes "eval_model E a m ls l tf sp mq mk w = (x, w')"
  shows "(heap w' = heap w \<or> heap w' = (heap w)[m := (heap w ! m)\<lparr>training := False\<rparr>]) \<and>
         (\<exists>evs. trace w' = trace w @ evs \<and> list_all (eval_event m) evs)"
proof (cases "(mk = None \<or> mq = None) \<and> sp = PyNone")
  case True
  with assms show ?thesis by (simp add: eval_model_def)
next
  case False
  let ?w0 = "set_training m False w"
  obtain y w1 where i: "eval_meta_init E a m tf sp mq mk ?w0 = (y, w1)"
    by (cases "eval_meta_init E a m tf sp mq mk ?w0")
  from eval_meta_init_effect[OF i] obtain evs where
    1: "heap w1 = (heap w)[m := (heap w ! m)\<lparr>training := False\<rparr>]" "trace w1 = trace w @ evs"
       "list_all (eval_event m) evs"
    by (auto simp: set_training_def)
  show ?thesis
  proof (cases y)
    case (Inl e)
    with assms False i 1 show ?thesis by (auto simp: eval_model_def)
  next
    case (Inr qk)
    obtain q k where qk: "qk = (q, k)" by (cases qk)
    obtain z w2 where l: "eval_loop E a m ls tf q k l eval_acc0 w1 = (z, w2)"
      by (cases "eval_loop E a m ls tf q k l eval_acc0 w1")
    from eval_loop_effect[OF l] obtain evs' where
      2: "heap w2 = heap w1" "trace w2 = trace w1 @ evs'" "list_all (eval_event m) evs'" by blast
    from assms False i Inr qk l have "w' = w2"
      by (auto simp: eval_model_def split: sum.splits if_splits)
    with 1 2 have "heap w' = (heap w)[m := (heap w ! m)\<lparr>training := False\<rparr>] \<and>
      trace w' = trace w @ (evs @ evs') \<and> list_all (eval_event m) (evs @ evs')" by simp
    then show ?thesis by blast
  qed
qed

lemma call_eval_model_effect:
  assumes "call_eval_model E a mdl ls l vl s = (x, s')"
  shows "(heap s' = heap s \<or> heap s' = (heap s)[mdl := (heap s ! mdl)\<lparr>training := False\<rparr>]) \<and>
         ((\<exists>v. x = Inl (UnboundLocalError v)) \<and> trace s' = trace s \<and> (meta_query s = None \<or> meta_key s = None) \<or>
          meta_query s \<noteq> None \<and> meta_key s \<noteq> None \<and>
          (\<exists>evs. trace s' = trace s @ EvalModel mdl (PyLoader l) (PyLoader vl)
                      (PyTensor (target_features s)) # evs \<and> list_all (eval_event mdl) evs))"
proof (cases "meta_query s")
  case None
  with assms show ?thesis by (auto simp: call_eval_model_def)
next
  case (Some q)
  show ?thesis
  proof (cases "meta_key s")
    case None
    with assms Some show ?thesis by (auto simp: call_eval_model_def)
  next
    case (Some k)
    with assms \<open>meta_query s = Some q\<close>
    have "eval_model E a mdl ls l (PyLoader vl) (PyTensor (target_features s)) (Some q) (Some k)
            (log_event (EvalModel mdl (PyLoader l) (PyLoader vl) (PyTensor (target_features s))) s)
          = (x, s')"
      by (simp add: call_eval_model_def)
    from eval_model_effect[OF this] Some \<open>meta_query s = Some q\<close>
    show ?thesis by (auto simp: log_event_def)
  qed
qed

section \<open>Effects of a training step\<close>

lemma batch_frame_refl: "batch_frame m s s"
  by (simp add: batch_frame_def)

lemma batch_frame_trans:
  assumes "batch_frame m s s1" and "batch_frame m s1 s2"
  shows "batch_frame m s s2"
proof -
  from assms obtain e1 e2 where
    "trace s1 = trace s @ e1" "list_all (batch_event m) e1"
    "trace s2 = trace s1 @ e2" "list_all (batch_event m) e2"
    by (auto simp: batch_frame_def)
  then have "trace s2 = trace s @ (e1 @ e2) \<and> list_all (batch_event m) (e1 @ e2)" by simp
  then have "\<exists>evs. trace s2 = trace s @ evs \<and> list_all (batch_event m) evs" by blast
  with assms show ?thesis by (simp add: batch_frame_def)
qed

lemma batch_frame_projections:
  assumes "batch_frame m s s'"
  shows "reports (trace s') = reports (trace s)"
    and "filter is_selection (trace s') = filter is_selection (trace s)"
proof -
  from assms obtain evs where e: "trace s' = trace s @ evs" "list_all (batch_event m) evs"
    by (auto simp: batch_frame_def)
  from e(2) have "filter is_report evs = [] \<and> filter is_selection evs = []"
    by (induction evs) (auto dest: batch_event_simps)
  with e(1) show "reports (trace s') = reports (trace s)"
    and "filter is_selection (trace s') = filter is_selection (trace s)"
    by (simp_all add: reports_def)
qed

lemma optimizer_steps_append [simp]:
  "optimizer_steps (xs @ ys) = optimizer_steps xs + optimizer_steps ys"
  by (simp add: optimizer_steps_def)

lemma target_feature_calls_append [simp]:
  "target_feature_calls (xs @ ys) = target_feature_calls xs + target_feature_calls ys"
  by (simp add: target_feature_calls_def)

lemma load_label_features_effect:
  "load_label_features E a m ds tgl task s = s' \<Longrightarrow>
   batch_frame m s s' \<and> count_iters s' = count_iters s \<and> tot_samples s' = tot_samples s \<and>
   image_features s' = image_features s \<and> heap s' = heap s \<and>
   target_features s' =
     (if target_update_needed a task
      then (if task = ''image2text'' then get_text_target_features E (heap s ! m) ds
            else get_vision_target_features E (heap s ! m) tgl)
      else target_features s) \<and>
   optimizer_steps (trace s') = optimizer_steps (trace s) \<and>
   target_feature_calls (trace s') =
     target_feature_calls (trace s) + (if target_update_needed a task then 1 else 0)"
  by (auto simp: load_label_features_def log_event_def batch_frame_def batch_event_def
      optimizer_steps_def target_feature_calls_def is_step_def is_target_call_def)

lemma forward_images_effect:
  "forward_images E a m imgs s = s' \<Longrightarrow>
   batch_frame m s s' \<and> count_iters s' = count_iters s \<and> tot_samples s' = tot_samples s \<and>
   target_features s' = target_features s \<and> heap s' = heap s \<and>
   (encoder a = ''vision'' \<or> encoder a = ''both'' \<longrightarrow> image_features s' \<noteq> None) \<and>
   (\<not> (encoder a = ''vision'' \<or> encoder a = ''both'') \<longrightarrow> image_features s' = image_features s) \<and>
   optimizer_steps (trace s') = optimizer_steps (trace s) \<and>
   target_feature_calls (trace s') = target_feature_calls (trace s)"
  by (auto simp: forward_images_def log_event_def batch_frame_def batch_event_def
      optimizer_steps_def target_feature_calls_def is_step_def is_target_call_def)

lemma forward_similarity_effect:
  "forward_similarity E a m ls s = (x, s') \<Longrightarrow>
   batch_frame m s s' \<and> count_iters s' = count_iters s \<and> tot_samples s' = tot_samples s \<and>
   target_features s' = target_features s \<and> heap s' = heap s \<and>
   image_features s' = image_features s \<and>
   optimizer_steps (trace s') = optimizer_steps (trace s) \<and>
   target_feature_calls (trace s') = target_feature_calls (trace s) \<and>
   (\<forall>e. x = Inl e \<longrightarrow>
      (e = UnboundLocalError ''image_features'' \<and> image_features s = None) \<or>
      (enable_MetaAdapter a \<and>
        (e = UnboundLocalError ''meta_query'' \<and> meta_query s = None \<or>
         e = UnboundLocalError ''meta_key'' \<and> meta_key s = None))) \<and>
   (\<not> enable_MetaAdapter a \<longrightarrow> image_features s \<noteq> None \<longrightarrow> (\<exists>y. x = Inr y))"
  by (auto simp: forward_similarity_def log_event_def batch_frame_def batch_event_def
      optimizer_steps_def target_feature_calls_def is_step_def is_target_call_def Let_def
      split: option.splits if_splits)

lemma backward_step_effect:
  "backward_step E m ls imgs target sim ref s = s' \<Longrightarrow>
   batch_frame m s s' \<and> count_iters s' = count_iters s \<and>
   tot_samples s' = tot_samples s + length target \<and>
   target_features s' = target_features s \<and> image_features s' = image_features s \<and>
   optimizer_steps (trace s') = optimizer_steps (trace s) + 1 \<and>
   target_feature_calls (trace s') = target_feature_calls (trace s)"
  by (auto simp: backward_step_def log_event_def batch_frame_def batch_event_def
      optimizer_steps_def target_feature_calls_def is_step_def is_target_call_def Let_def)

lemma update_memory_effect:
  "update_memory a target s = (x, s') \<Longrightarrow>
   batch_frame m s s' \<and> count_iters s' = count_iters s \<and> tot_samples s' = tot_samples s \<and>
   target_features s' = target_features s \<and> heap s' = heap s \<and> trace s' = trace s \<and>
   image_features s' = image_features s \<and>
   (\<not> enable_MetaAdapter a \<longrightarrow> x = None)"
  by (auto simp: update_memory_def batch_frame_def split: option.splits if_splits prod.splits)

text \<open>The shape of a training step: the forward pass either raises, or the backward
  pass and the memory update follow and the counter is advanced when they succeed.\<close>

lemma train_batch_cases:
  assumes "train_batch E a m ls ds tgl task (imgs, target, f) s = (x, s')"
  obtains (forward_raises) e where
      "forward_similarity E a m ls
         (forward_images E a m imgs (load_label_features E a m ds tgl task s)) = (Inl e, s')"
      "x = Some e"
  | (memory_raises) sim ref s2 e where
      "forward_similarity E a m ls
         (forward_images E a m imgs (load_label_features E a m ds tgl task s)) = (Inr (sim, ref), s2)"
      "update_memory a target (backward_step E m ls imgs target sim ref s2) = (Some e, s')"
      "x = Some e"
  | (completes) sim ref s2 s3 where
      "forward_similarity E a m ls
         (forward_images E a m imgs (load_label_features E a m ds tgl task s)) = (Inr (sim, ref), s2)"
      "update_memory a target (backward_step E m ls imgs target sim ref s2) = (None, s3)"
      "x = None" "s' = s3\<lparr>count_iters := count_iters s3 + 1\<rparr>"
  using assms
  by (auto simp: train_batch_def split: prod.splits sum.splits option.splits)

lemma train_batch_effect:
  assumes "train_batch E a m ls ds tgl task b s = (x, s')"
  shows "batch_frame m s s' \<and>
     target_features s' =
       (if target_update_needed a task
        then (if task = ''image2text'' then get_text_target_features E (heap s ! m) ds
              else get_vision_target_features E (heap s ! m) tgl)
        else target_features s) \<and>
     target_feature_calls (trace s') =
       target_feature_calls (trace s) + (if target_update_needed a task then 1 else 0) \<and>
     (x = None \<longrightarrow> count_iters s' = count_iters s + 1 \<and>
        optimizer_steps (trace s') = optimizer_steps (trace s) + 1 \<and>
        tot_samples s' = tot_samples s + length (fst (snd b))) \<and>
     (x \<noteq> None \<longrightarrow> count_iters s' = count_iters s \<and>
        optimizer_steps (trace s') \<le> optimizer_steps (trace s) + 1)"
proof -
  obtain imgs target f where b: "b = (imgs, target, f)" by (cases b)
  define s0 where "s0 = load_label_features E a m ds tgl task s"
  define s1 where "s1 = forward_images E a m imgs s0"
  note e0 = load_label_features_effect[OF s0_def[symmetric]]
  note e1 = forward_images_effect[OF s1_def[symmetric]]
  from e0 e1 have f01: "batch_frame m s s1" by (blast intro: batch_frame_trans)
  from assms[unfolded b] show ?thesis
  proof (cases rule: train_batch_cases)
    case (forward_raises e)
    note e2 = forward_similarity_effect[OF forward_raises(1)[folded s0_def s1_def]]
    from f01 e2 have "batch_frame m s s'" by (blast intro: batch_frame_trans)
    with e0 e1 e2 forward_raises(2) show ?thesis by simp
  next
    case (memory_raises sim ref s2 e)
    define s3 where "s3 = backward_step E m ls imgs target sim ref s2"
    note e2 = forward_similarity_effect[OF memory_raises(1)[folded s0_def s1_def]]
    note e3 = backward_step_effect[OF s3_def[symmetric]]
    note e4 = update_memory_effect[OF memory_raises(2)[folded s3_def], of m]
    from f01 e2 e3 e4 have "batch_frame m s s'" by (blast intro: batch_frame_trans)
    with e0 e1 e2 e3 e4 memory_raises(3) show ?thesis by simp
  next
    case (completes sim ref s2 s4)
    define s3 where "s3 = backward_step E m ls imgs target sim ref s2"
    note e2 = forward_similarity_effect[OF completes(1)[folded s0_def s1_def]]
    note e3 = backward_step_effect[OF s3_def[symmetric]]
    note e4 = update_memory_effect[OF completes(2)[folded s3_def], of m]
    from f01 e2 e3 e4 have "batch_frame m s s4" by (blast intro: batch_frame_trans)
    then have "batch_frame m s s'" by (simp add: batch_frame_def completes(4))
    with e0 e1 e2 e3 e4 completes(3,4) b show ?thesis by simp
  qed
qed

section \<open>Effects of the pass over the training loader\<close>

lemma batch_frame_steps_mono:
  "batch_frame m s s' \<Longrightarrow> optimizer_steps (trace s) \<le> optimizer_steps (trace s')"
  by (auto simp: batch_frame_def)

lemma train_epoch_effect:
  "train_epoch E a m ls ds tgl task T bs s = (x, s') \<Longrightarrow>
   batch_frame m s s' \<and>
   (\<not> target_update_needed a task \<longrightarrow>
      target_features s' = target_features s \<and>
      target_feature_calls (trace s') = target_feature_calls (trace s)) \<and>
   count_iters s \<le> count_iters s' \<and>
   (x = None \<longrightarrow>
      int (optimizer_steps (trace s')) - count_iters s' =
      int (optimizer_steps (trace s)) - count_iters s) \<and>
   (x \<noteq> None \<longrightarrow>
      int (optimizer_steps (trace s')) - count_iters s' \<le>
      int (optimizer_steps (trace s)) - count_iters s + 1 \<and>
      int (optimizer_steps (trace s)) - count_iters s \<le>
      int (optimizer_steps (trace s')) - count_iters s')"
proof (induction bs arbitrary: s)
  case Nil
  then show ?case by (simp add: batch_frame_refl)
next
  case (Cons b bs)
  obtain y s1 where b: "train_batch E a m ls ds tgl task b s = (y, s1)"
    by (cases "train_batch E a m ls ds tgl task b s")
  note e = train_batch_effect[OF b]
  show ?case
  proof (cases "y = None \<and> count_iters s1 \<noteq> T")
    case True
    with Cons.prems b have "train_epoch E a m ls ds tgl task T bs s1 = (x, s')" by simp
    note ih = Cons.IH[OF this]
    from e ih have "batch_frame m s s'" by (blast intro: batch_frame_trans)
    with e ih True show ?thesis by (auto split: if_splits)
  next
    case False
    with Cons.prems b have "x = y" "s' = s1" by (auto split: option.splits if_splits)
    with e batch_frame_steps_mono[of m s s1] show ?thesis by (auto split: if_splits)
  qed
qed

lemma train_epoch_exact_count:
  "train_epoch E a m ls ds tgl task T bs s = (None, s') \<Longrightarrow> count_iters s < T \<Longrightarrow>
   count_iters s' = min (count_iters s + int (length bs)) T \<and>
   (tot_samples s' = 0 \<longrightarrow> tot_samples s = 0 \<and> (\<forall>b \<in> set (take (nat (T - count_iters s)) bs). fst (snd b) = []))"
proof (induction bs arbitrary: s)
  case Nil
  then show ?case by simp
next
  case (Cons b bs)
  from Cons.prems(1) obtain s1 where b: "train_batch E a m ls ds tgl task b s = (None, s1)"
    by (auto split: prod.splits option.splits)
  from train_batch_effect[OF b]
  have c: "count_iters s1 = count_iters s + 1"
    and t: "tot_samples s1 = tot_samples s + length (fst (snd b))" by simp_all
  show ?case
  proof (cases "count_iters s1 = T")
    case True
    with Cons.prems b have "s' = s1" by simp
    with c t True show ?thesis by (auto simp: min_def)
  next
    case False
    with Cons.prems b have r: "train_epoch E a m ls ds tgl task T bs s1 = (None, s')" by simp
    from False c Cons.prems have lt: "count_iters s1 < T" by simp
    have "nat (T - count_iters s) = Suc (nat (T - count_iters s1))" using c lt by simp
    with Cons.IH[OF r lt] c t lt show ?thesis by (auto simp: min_def)
  qed
qed

text \<open>Without the meta-adapter a training step raises only when the image features
  were never computed, that is when the encoder option is neither \<^verbatim>\<open>vision\<close> nor
  \<^verbatim>\<open>both\<close>.\<close>

lemma train_batch_without_adapter:
  assumes "\<not> enable_MetaAdapter a" and "train_batch E a m ls ds tgl task b s = (x, s')"
  shows "(encoder a = ''vision'' \<or> encoder a = ''both'' \<longrightarrow> x = None) \<and>
         (x = None \<or> x = Some (UnboundLocalError ''image_features''))"
proof -
  obtain imgs target f where b: "b = (imgs, target, f)" by (cases b)
  define s0 where "s0 = load_label_features E a m ds tgl task s"
  define s1 where "s1 = forward_images E a m imgs s0"
  note e1 = forward_images_effect[OF s1_def[symmetric]]
  from assms(2)[unfolded b] show ?thesis
  proof (cases rule: train_batch_cases)
    case (forward_raises e)
    from forward_similarity_effect[OF forward_raises(1)[folded s0_def s1_def]] e1 assms(1)
      forward_raises(2)
    show ?thesis by auto
  next
    case (memory_raises sim ref s2 e)
    from update_memory_effect[OF memory_raises(2)] assms(1) show ?thesis by simp
  next
    case (completes sim ref s2 s3)
    then show ?thesis by simp
  qed
qed

lemma train_epoch_without_adapter:
  assumes "\<not> enable_MetaAdapter a"
  shows "train_epoch E a m ls ds tgl task T bs s = (x, s') \<Longrightarrow>
         (encoder a = ''vision'' \<or> encoder a = ''both'' \<longrightarrow> x = None) \<and>
         (x = None \<or> x = Some (UnboundLocalError ''image_features''))"
proof (induction bs arbitrary: s)
  case Nil
  then show ?case by simp
next
  case (Cons b bs)
  obtain y s1 where b: "train_batch E a m ls ds tgl task b s = (y, s1)"
    by (cases "train_batch E a m ls ds tgl task b s")
  note e = train_batch_without_adapter[OF assms b]
  show ?case
  proof (cases "y = None \<and> count_iters s1 \<noteq> T")
    case True
    with Cons.prems b have "train_epoch E a m ls ds tgl task T bs s1 = (x, s')" by simp
    from Cons.IH[OF this] show ?thesis .
  next
    case False
    with Cons.prems b have "x = y" by (auto split: option.splits if_splits)
    with e show ?thesis by simp
  qed
qed

section \<open>Effects of the end of an epoch\<close>

lemma run_frame_refl: "run_frame m s s"
  by (simp add: run_frame_def)

lemma run_frame_trans: "run_frame m s s1 \<Longrightarrow> run_frame m s1 s2 \<Longrightarrow> run_frame m s s2"
  by (auto simp: run_frame_def)

lemma batch_frame_run_frame:
  "batch_frame m s s' \<Longrightarrow> count_iters s \<le> count_iters s' \<Longrightarrow> run_frame m s s'"
  by (auto simp: batch_frame_def run_frame_def)

lemma reports_append [simp]: "reports (xs @ ys) = reports xs @ reports ys"
  by (simp add: reports_def)

lemma eval_events_projections:
  assumes "list_all (eval_event m) evs"
  shows "reports evs = []" and "filter is_selection evs = []" and "optimizer_steps evs = 0"
  using assms
  by (induction evs) (auto simp: reports_def optimizer_steps_def dest: eval_event_simps)

lemma epoch_log_effect:
  assumes "epoch_log E T s = (x, s')"
  shows "heap s' = heap s \<and> meta_query s' = meta_query s \<and> meta_key s' = meta_key s \<and>
     target_features s' = target_features s \<and> count_iters s' = count_iters s \<and>
     best_acc s' = best_acc s \<and> best_model s' = best_model s \<and>
     (x = None \<or> x = Some ZeroDivisionError) \<and>
     (x = Some ZeroDivisionError \<longleftrightarrow> count_iters s < T \<and> tot_samples s = 0) \<and>
     (x \<noteq> None \<longrightarrow> s' = s) \<and>
     (x = None \<longrightarrow> trace s' = trace s @
        (if count_iters s < T
         then [PrintTrain (get_last_lr E (optimizer s)) (acc_train s / real (tot_samples s))
                 (loss_epoch s / real (tot_samples s))]
         else []))"
  using assms by (auto simp: epoch_log_def log_event_def Let_def split: if_splits)

lemma save_best_effect:
  "save_best m v s = s' \<Longrightarrow>
   meta_query s' = meta_query s \<and> meta_key s' = meta_key s \<and>
   target_features s' = target_features s \<and> count_iters s' = count_iters s \<and>
   best_acc s' = max (best_acc s) v \<and>
   best_model s' = (if best_acc s < v then length (heap s) else best_model s) \<and>
   heap s' = (if best_acc s < v then heap s @ [(heap s ! m)\<lparr>device := CPU\<rparr>] else heap s) \<and>
   trace s' = trace s @ (if best_acc s < v then [DeepCopy m (length (heap s))] else [])"
  by (auto simp: save_best_def log_event_def)

lemma after_epoch_cases:
  assumes "after_epoch E a m ls vl T s = (x, s')"
  obtains (log_raises) e where "epoch_log E T s = (Some e, s')" "x = Some e"
  | (eval_raises) s1 e where "epoch_log E T s = (None, s1)"
      "call_eval_model E a m ls vl vl (set_training m False s1) = (Inl e, s')" "x = Some e"
  | (completes) s1 r s2 where "epoch_log E T s = (None, s1)"
      "call_eval_model E a m ls vl vl (set_training m False s1) = (Inr r, s2)" "x = None"
      "s' = save_best m (acc r) (log_event (PrintVal (acc r)) s2)"
  using assms
  by (auto simp: after_epoch_def split: prod.splits sum.splits option.splits)

text \<open>The evaluation call seen from the training state: the locals stay, the store
  keeps its length and changes at most in the mode flag of the evaluated model.\<close>

lemma call_eval_model_locals:
  assumes "call_eval_model E a mdl ls l vl s = (x, s')"
  shows "meta_query s' = meta_query s \<and> meta_key s' = meta_key s \<and>
     target_features s' = target_features s \<and> count_iters s' = count_iters s \<and>
     best_acc s' = best_acc s \<and> best_model s' = best_model s \<and>
     length (heap s') = length (heap s) \<and>
     (\<forall>ad. ad \<noteq> mdl \<longrightarrow> heap s' ! ad = heap s ! ad) \<and>
     (mdl < length (heap s) \<longrightarrow>
        params (heap s' ! mdl) = params (heap s ! mdl) \<and>
        device (heap s' ! mdl) = device (heap s ! mdl))"
proof -
  note f = call_eval_model_frame[OF assms]
  have "meta_query s' = meta_query s" "meta_key s' = meta_key s"
    "target_features s' = target_features s" "count_iters s' = count_iters s"
    "best_acc s' = best_acc s" "best_model s' = best_model s"
    by (subst f, simp)+
  moreover from call_eval_model_effect[OF assms]
  have "heap s' = heap s \<or> heap s' = (heap s)[mdl := (heap s ! mdl)\<lparr>training := False\<rparr>]"
    by blast
  then have "length (heap s') = length (heap s) \<and>
     (\<forall>ad. ad \<noteq> mdl \<longrightarrow> heap s' ! ad = heap s ! ad) \<and>
     (mdl < length (heap s) \<longrightarrow>
        params (heap s' ! mdl) = params (heap s ! mdl) \<and>
        device (heap s' ! mdl) = device (heap s ! mdl))"
    by auto
  ultimately show ?thesis by blast
qed

lemma after_epoch_effect:
  assumes "after_epoch E a m ls vl T s = (x, s')"
  shows "run_frame m s s' \<and> count_iters s' = count_iters s \<and>
     target_features s' = target_features s \<and> meta_key s' = meta_key s \<and>
     optimizer_steps (trace s') = optimizer_steps (trace s) \<and>
     (x = None \<longrightarrow>
        (count_iters s < T \<longrightarrow> tot_samples s \<noteq> 0) \<and>
        reports (trace s') = reports (trace s) @
          (if count_iters s < T
           then [PrintTrain (get_last_lr E (optimizer s)) (acc_train s / real (tot_samples s))
                   (loss_epoch s / real (tot_samples s))]
           else []) @
          [EvalModel m (PyLoader vl) (PyLoader vl) (PyTensor (target_features s))])"
  using assms
proof (cases rule: after_epoch_cases)
  case (log_raises e)
  from epoch_log_effect[OF log_raises(1)] log_raises(2)
  show ?thesis by (simp add: run_frame_refl)
next
  case (eval_raises s1 e)
  note l = epoch_log_effect[OF eval_raises(1)]
  note c = call_eval_model_locals[OF eval_raises(2)]
  from call_eval_model_effect[OF eval_raises(2)]
  have "optimizer_steps (trace s') = optimizer_steps (trace s1)"
    by (auto simp: set_training_def optimizer_steps_def is_step_def
        dest: eval_events_projections(3))
  moreover from l have "optimizer_steps (trace s1) = optimizer_steps (trace s)"
    by (auto simp: optimizer_steps_def is_step_def)
  ultimately show ?thesis using l c eval_raises(3)
    by (auto simp: run_frame_def set_training_def nth_list_update)
next
  case (completes s1 r s2)
  note l = epoch_log_effect[OF completes(1)]
  note c = call_eval_model_locals[OF completes(2)]
  note sb = save_best_effect[OF completes(4)[symmetric]]
  from call_eval_model_effect[OF completes(2)] obtain evs where
    t2: "trace s2 = trace s1 @ EvalModel m (PyLoader vl) (PyLoader vl)
           (PyTensor (target_features s1)) # evs" and ev: "list_all (eval_event m) evs"
    by (auto simp: set_training_def)
  from l completes(3) have t1: "trace s1 = trace s @
        (if count_iters s < T
         then [PrintTrain (get_last_lr E (optimizer s)) (acc_train s / real (tot_samples s))
                 (loss_epoch s / real (tot_samples s))]
         else [])" and nz: "count_iters s < T \<longrightarrow> tot_samples s \<noteq> 0" by auto
  from sb have t3: "trace s' = trace s2 @ PrintVal (acc r) #
      (if best_acc s2 < acc r then [DeepCopy m (length (heap s2))] else [])"
    by (simp add: log_event_def)
  have steps: "optimizer_steps (trace s') = optimizer_steps (trace s)"
    unfolding t3 t2 t1 using eval_events_projections(3)[OF ev]
    by (simp add: optimizer_steps_def is_step_def)
  have rep: "reports (trace s') = reports (trace s) @
          (if count_iters s < T
           then [PrintTrain (get_last_lr E (optimizer s)) (acc_train s / real (tot_samples s))
                   (loss_epoch s / real (tot_samples s))]
           else []) @
          [EvalModel m (PyLoader vl) (PyLoader vl) (PyTensor (target_features s))]"
    unfolding t3 t2 t1 using eval_events_projections(1)[OF ev] l
    by (simp add: reports_def is_report_def)
  have fr: "run_frame m s s'"
    using l c sb
    by (auto simp: run_frame_def set_training_def log_event_def nth_list_update nth_append)
  from l c sb fr steps rep nz completes(3) show ?thesis
    by (simp add: set_training_def log_event_def)
qed

section \<open>Checkpoint selection at the end of an epoch\<close>

lemma after_epoch_selection:
  assumes "after_epoch E a m ls vl T s = (None, s')"
  shows "\<exists>v. filter is_selection (trace s') = filter is_selection (trace s) @
            [EvalModel m (PyLoader vl) (PyLoader vl) (PyTensor (target_features s)), PrintVal v] @
            (if best_acc s < v then [DeepCopy m (length (heap s))] else []) \<and>
          best_acc s' = max (best_acc s) v \<and>
          best_model s' = (if best_acc s < v then length (heap s) else best_model s) \<and>
          length (heap s') = (if best_acc s < v then Suc (length (heap s)) else length (heap s)) \<and>
          (best_acc s < v \<longrightarrow> m < length (heap s) \<longrightarrow>
             params (heap s' ! length (heap s)) = params (heap s ! m) \<and>
             params (heap s' ! m) = params (heap s ! m) \<and>
             device (heap s' ! length (heap s)) = CPU)"
  using assms
proof (cases rule: after_epoch_cases)
  case (completes s1 r s2)
  note l = epoch_log_effect[OF completes(1)]
  note c = call_eval_model_locals[OF completes(2)]
  note sb = save_best_effect[OF completes(4)[symmetric]]
  from call_eval_model_effect[OF completes(2)] obtain evs where
    t2: "trace s2 = trace s1 @ EvalModel m (PyLoader vl) (PyLoader vl)
           (PyTensor (target_features s1)) # evs" and ev: "list_all (eval_event m) evs"
    by (auto simp: set_training_def)
  from l completes(3) have t1: "filter is_selection (trace s1) = filter is_selection (trace s)"
    by (auto simp: is_selection_def)
  from sb have t3: "trace s' = trace s2 @ PrintVal (acc r) #
      (if best_acc s2 < acc r then [DeepCopy m (length (heap s2))] else [])"
    by (simp add: log_event_def)
  have sel: "filter is_selection (trace s') = filter is_selection (trace s) @
      [EvalModel m (PyLoader vl) (PyLoader vl) (PyTensor (target_features s)), PrintVal (acc r)] @
      (if best_acc s < acc r then [DeepCopy m (length (heap s))] else [])"
    unfolding t3 t2 using eval_events_projections(2)[OF ev] l c t1
    by (simp add: is_selection_def set_training_def log_event_def)
  have "best_acc s' = max (best_acc s) (acc r) \<and>
        best_model s' = (if best_acc s < acc r then length (heap s) else best_model s) \<and>
        length (heap s') = (if best_acc s < acc r then Suc (length (heap s)) else length (heap s)) \<and>
        (best_acc s < acc r \<longrightarrow> m < length (heap s) \<longrightarrow>
           params (heap s' ! length (heap s)) = params (heap s ! m) \<and>
           params (heap s' ! m) = params (heap s ! m) \<and>
           device (heap s' ! length (heap s)) = CPU)"
    using l c sb by (auto simp: set_training_def log_event_def nth_append)
  with sel show ?thesis by blast
qed simp_all

lemma after_epoch_unbound:
  assumes "meta_query s = None" and "after_epoch E a m ls vl T s = (x, s')"
  shows "(x = Some ZeroDivisionError \<and> count_iters s < T \<and> tot_samples s = 0 \<or>
          x = Some (UnboundLocalError ''meta_query'') \<and> \<not> (count_iters s < T \<and> tot_samples s = 0)) \<and>
         filter is_selection (trace s') = filter is_selection (trace s) \<and>
         best_acc s' = best_acc s \<and> best_model s' = best_model s \<and>
         length (heap s') = length (heap s)"
  using assms(2)
proof (cases rule: after_epoch_cases)
  case (log_raises e)
  from epoch_log_effect[OF log_raises(1)] log_raises(2) show ?thesis by auto
next
  case (eval_raises s1 e)
  note l = epoch_log_effect[OF eval_raises(1)]
  from l assms(1) have "meta_query (set_training m False s1) = None"
    by (simp add: set_training_def)
  with eval_raises(2) have "e = UnboundLocalError ''meta_query''" "s' = set_training m False s1"
    by (auto simp: call_eval_model_def)
  with l eval_raises(3) show ?thesis
    by (auto simp: set_training_def is_selection_def)
next
  case (completes s1 r s2)
  note l = epoch_log_effect[OF completes(1)]
  from l assms(1) have "meta_query (set_training m False s1) = None"
    by (simp add: set_training_def)
  with completes(2) show ?thesis by (simp add: call_eval_model_def)
qed

section \<open>Effects of the \<^verbatim>\<open>while\<close> body and of the loop\<close>

lemma begin_epoch_effect:
  "begin_epoch m s = s' \<Longrightarrow>
   batch_frame m s s' \<and> trace s' = trace s \<and> count_iters s' = count_iters s \<and>
   target_features s' = target_features s \<and> tot_samples s' = 0"
  by (auto simp: begin_epoch_def set_training_def batch_frame_def)

lemma run_epoch_cases:
  assumes "run_epoch E a m ls ds trl vl tgl task T s = (x, s')"
  obtains (batch_raises) e where
      "train_epoch E a m ls ds tgl task T trl (begin_epoch m s) = (Some e, s')" "x = Some e"
  | (epoch_done) s1 where
      "train_epoch E a m ls ds tgl task T trl (begin_epoch m s) = (None, s1)"
      "after_epoch E a m ls vl T s1 = (x, s')"
  using assms by (auto simp: run_epoch_def split: prod.splits option.splits)

lemma run_epoch_effect:
  assumes "run_epoch E a m ls ds trl vl tgl task T s = (x, s')"
  shows "run_frame m s s' \<and>
     (\<not> target_update_needed a task \<longrightarrow> target_features s' = target_features s) \<and>
     (x = None \<longrightarrow>
        int (optimizer_steps (trace s')) - count_iters s' =
        int (optimizer_steps (trace s)) - count_iters s) \<and>
     (x \<noteq> None \<longrightarrow>
        int (optimizer_steps (trace s')) - count_iters s' \<le>
        int (optimizer_steps (trace s)) - count_iters s + 1 \<and>
        int (optimizer_steps (trace s)) - count_iters s \<le>
        int (optimizer_steps (trace s')) - count_iters s')"
  using assms
proof (cases rule: run_epoch_cases)
  case (batch_raises e)
  note b = begin_epoch_effect[OF refl, of m s]
  note t = train_epoch_effect[OF batch_raises(1)]
  from b t have "batch_frame m s s'" by (blast intro: batch_frame_trans)
  with b t have "run_frame m s s'" by (simp add: batch_frame_run_frame)
  with b t batch_raises(2) show ?thesis by simp
next
  case (epoch_done s1)
  note b = begin_epoch_effect[OF refl, of m s]
  note t = train_epoch_effect[OF epoch_done(1)]
  note f = after_epoch_effect[OF epoch_done(2)]
  from b t have "batch_frame m s s1" by (blast intro: batch_frame_trans)
  with b t have "run_frame m s s1" by (simp add: batch_frame_run_frame)
  with f have "run_frame m s s'" by (blast intro: run_frame_trans)
  with b t f show ?thesis by simp
qed


lemma run_epoch_unbound:
  assumes "meta_query s = None" and "run_epoch E a m ls ds trl vl tgl task T s = (x, s')"
  shows "x \<noteq> None \<and> filter is_selection (trace s') = filter is_selection (trace s) \<and>
         best_acc s' = best_acc s \<and> best_model s' = best_model s \<and>
         length (heap s') = length (heap s)"
  using assms(2)
proof (cases rule: run_epoch_cases)
  case (batch_raises e)
  note b = begin_epoch_effect[OF refl, of m s]
  note t = train_epoch_effect[OF batch_raises(1)]
  from b t have fr: "batch_frame m s s'" by (blast intro: batch_frame_trans)
  from batch_frame_projections(2)[OF fr] fr batch_raises(2) show ?thesis
    by (simp add: batch_frame_def)
next
  case (epoch_done s1)
  note b = begin_epoch_effect[OF refl, of m s]
  note t = train_epoch_effect[OF epoch_done(1)]
  from b t have fr: "batch_frame m s s1" by (blast intro: batch_frame_trans)
  with assms(1) have "meta_query s1 = None" by (simp add: batch_frame_def)
  from after_epoch_unbound[OF this epoch_done(2)] batch_frame_projections(2)[OF fr] fr
  show ?thesis by (auto simp: batch_frame_def)
qed

lemma train_loop_effect:
  "train_loop E a m ls ds trl vl tgl task T s = (x, s') \<Longrightarrow>
   run_frame m s s' \<and>
   (\<not> target_update_needed a task \<longrightarrow> target_features s' = target_features s) \<and>
   (x = None \<longrightarrow>
      \<not> count_iters s' < T \<and> (count_iters s \<le> T \<longrightarrow> count_iters s' = T) \<and>
      int (optimizer_steps (trace s')) - count_iters s' =
      int (optimizer_steps (trace s)) - count_iters s) \<and>
   (x \<noteq> None \<longrightarrow>
      int (optimizer_steps (trace s')) - count_iters s' \<le>
      int (optimizer_steps (trace s)) - count_iters s + 1 \<and>
      int (optimizer_steps (trace s)) - count_iters s \<le>
      int (optimizer_steps (trace s')) - count_iters s') \<and>
   (meta_query s = None \<longrightarrow>
      (count_iters s < T \<longrightarrow> x \<noteq> None) \<and>
      filter is_selection (trace s') = filter is_selection (trace s) \<and>
      best_acc s' = best_acc s \<and> best_model s' = best_model s \<and>
      length (heap s') = length (heap s))"
proof (induction E a m ls ds trl vl tgl task T s rule: train_loop.induct)
  case (1 E a m ls ds trl vl tgl task T s)
  show ?case
  proof (cases "count_iters s < T")
    case False
    with "1.prems" have "x = None" "s' = s" by (simp_all add: train_loop.simps)
    with False show ?thesis by (simp add: run_frame_refl)
  next
    case True
    obtain y s1 where r: "run_epoch E a m ls ds trl vl tgl task T s = (y, s1)"
      by (cases "run_epoch E a m ls ds trl vl tgl task T s")
    note e = run_epoch_effect[OF r]
    show ?thesis
    proof (cases y)
      case (Some err)
      with True r "1.prems" have xs: "x = Some err" "s' = s1" by (simp_all add: train_loop.simps)
      have "meta_query s = None \<longrightarrow>
        filter is_selection (trace s') = filter is_selection (trace s) \<and>
        best_acc s' = best_acc s \<and> best_model s' = best_model s \<and>
        length (heap s') = length (heap s)"
        using run_epoch_unbound[OF _ r] xs by simp
      with e xs Some show ?thesis by simp
    next
      case None
      with True r "1.prems" have l: "train_loop E a m ls ds trl vl tgl task T s1 = (x, s')"
        by (simp add: train_loop.simps)
      from r None have r': "run_epoch E a m ls ds trl vl tgl task T s = (None, s1)" by simp
      note ih = "1.IH"[OF True r[symmetric] None l]
      note p = run_epoch_progress[OF r' True]
      from e ih have fr: "run_frame m s s'" by (blast intro: run_frame_trans)
      have "meta_query s \<noteq> None" using run_epoch_unbound[OF _ r] None by auto
      with e ih p fr None show ?thesis by auto
    qed
  qed
qed

section \<open>Effects of the set-up and of the final evaluation\<close>

lemma meta_setup_effect:
  assumes "meta_setup E a m vl s = (x, s')"
  shows "count_iters s' = count_iters s \<and> target_features s' = target_features s \<and>
     best_acc s' = best_acc s \<and> best_model s' = best_model s \<and>
     length (heap s') = length (heap s) \<and> (\<forall>ad. ad \<noteq> m \<longrightarrow> heap s' ! ad = heap s ! ad) \<and>
     optimizer_steps (trace s') = optimizer_steps (trace s) \<and>
     filter is_selection (trace s') = filter is_selection (trace s) \<and>
     reports (trace s') = reports (trace s) \<and>
     (\<not> enable_MetaAdapter a \<longrightarrow> x = None \<and> s' = s) \<and>
     (enable_MetaAdapter a \<longrightarrow> meta_query s' = Some (target_features s))"
  using assms
  by (auto simp: meta_setup_def Let_def set_training_def log_event_def optimizer_steps_def
      is_step_def is_selection_def reports_def is_report_def
      split: if_splits sum.splits)

lemma finish_cases:
  assumes "finish E a ls tel vl s = (x, s')"
  obtains (eval_raises) e where
      "call_eval_model E a (best_model s) ls tel vl
         (s\<lparr>heap := (heap s)[best_model s := (heap s ! best_model s)\<lparr>device := CUDA\<rparr>]\<rparr>) = (Inl e, s')"
      "x = Some e"
  | (completes) r s2 where
      "call_eval_model E a (best_model s) ls tel vl
         (s\<lparr>heap := (heap s)[best_model s := (heap s ! best_model s)\<lparr>device := CUDA\<rparr>]\<rparr>) = (Inr r, s2)"
      "x = None"
      "s' = (case save_path a of
               None \<Rightarrow> log_event (PrintTest (acc r)) s2
             | Some p \<Rightarrow>
                 log_event (PrintSaved (os_path_join p (filename a @ ''.pth'')))
                   (log_event (TorchSave (best_model s) (os_path_join p (filename a @ ''.pth'')))
                      (log_event (PrintTest (acc r)) s2)))"
proof -
  let ?s1 = "s\<lparr>heap := (heap s)[best_model s := (heap s ! best_model s)\<lparr>device := CUDA\<rparr>]\<rparr>"
  obtain y s2 where c: "call_eval_model E a (best_model s) ls tel vl ?s1 = (y, s2)"
    by (cases "call_eval_model E a (best_model s) ls tel vl ?s1")
  note bm = call_eval_model_locals[OF c]
  show thesis
  proof (cases y)
    case (Inl e)
    with assms c have "x = Some e" "s' = s2" by (simp_all add: finish_def Let_def)
    with c Inl eval_raises show thesis by simp
  next
    case (Inr r)
    from bm have "best_model s2 = best_model s" by simp
    with assms c Inr have "x = None"
      "s' = (case save_path a of
               None \<Rightarrow> log_event (PrintTest (acc r)) s2
             | Some p \<Rightarrow>
                 log_event (PrintSaved (os_path_join p (filename a @ ''.pth'')))
                   (log_event (TorchSave (best_model s) (os_path_join p (filename a @ ''.pth'')))
                      (log_event (PrintTest (acc r)) s2)))"
      by (auto simp: finish_def Let_def log_event_def split: option.splits)
    with c Inr completes show thesis by simp
  qed
qed

lemma finish_effect:
  assumes "finish E a ls tel vl s = (x, s')"
  shows "count_iters s' = count_iters s \<and> target_features s' = target_features s \<and>
     best_acc s' = best_acc s \<and> best_model s' = best_model s \<and>
     length (heap s') = length (heap s) \<and>
     (\<forall>ad. ad \<noteq> best_model s \<longrightarrow> heap s' ! ad = heap s ! ad) \<and>
     (best_model s < length (heap s) \<longrightarrow>
        params (heap s' ! best_model s) = params (heap s ! best_model s) \<and>
        device (heap s' ! best_model s) = CUDA) \<and>
     optimizer_steps (trace s') = optimizer_steps (trace s) \<and>
     (meta_query s = None \<longrightarrow> x = Some (UnboundLocalError ''meta_query'') \<and> trace s' = trace s) \<and>
     (x = None \<longrightarrow>
        (\<exists>evs. reports (trace s') = reports (trace s) @
           [EvalModel (best_model s) (PyLoader tel) (PyLoader vl) (PyTensor (target_features s))]))"
proof -
  let ?s1 = "s\<lparr>heap := (heap s)[best_model s := (heap s ! best_model s)\<lparr>device := CUDA\<rparr>]\<rparr>"
  from assms show ?thesis
  proof (cases rule: finish_cases)
    case (eval_raises e)
    note c = call_eval_model_locals[OF eval_raises(1)]
    from call_eval_model_effect[OF eval_raises(1)]
    have st: "optimizer_steps (trace s') = optimizer_steps (trace s)"
      by (auto simp: optimizer_steps_def is_step_def dest: eval_events_projections(3))
    have "meta_query s = None \<longrightarrow> e = UnboundLocalError ''meta_query'' \<and> trace s' = trace s"
      using eval_raises(1) by (auto simp: call_eval_model_def)
    with c st eval_raises(2) show ?thesis by (auto simp: nth_list_update)
  next
    case (completes r s2)
    note c = call_eval_model_locals[OF completes(1)]
    from call_eval_model_effect[OF completes(1)] obtain evs where
      t2: "trace s2 = trace s @ EvalModel (best_model s) (PyLoader tel) (PyLoader vl)
             (PyTensor (target_features s)) # evs" and ev: "list_all (eval_event (best_model s)) evs"
      and mq: "meta_query s \<noteq> None"
      by auto
    have st: "optimizer_steps (trace s') = optimizer_steps (trace s)"
      unfolding completes(3) using t2 eval_events_projections(3)[OF ev]
      by (simp add: log_event_def optimizer_steps_def is_step_def split: option.splits)
    have rp: "reports (trace s') = reports (trace s) @
           [EvalModel (best_model s) (PyLoader tel) (PyLoader vl) (PyTensor (target_features s))]"
      unfolding completes(3) using t2 eval_events_projections(1)[OF ev]
      by (simp add: log_event_def reports_def is_report_def split: option.splits)
    from c st rp mq completes(2,3) show ?thesis
      by (auto simp: log_event_def nth_list_update split: option.splits)
  qed
qed

text \<open>A run that returns has made exactly \<open>total_iters\<close> optimizer steps (none when
  \<open>total_iters\<close> is not positive).\<close>

lemma train_model_steps:
  assumes "train_model E a h m ls ds trl vl tel tgl tf task = (None, s')"
  shows "optimizer_steps (trace s') = nat (n_iters a * shots a) \<and>
         count_iters s' = max 0 (n_iters a * shots a)"
proof -
  let ?T = "n_iters a * shots a"
  let ?s0 = "init_state E a h m tf"
  from assms obtain s1 s2 where
    1: "meta_setup E a m vl ?s0 = (None, s1)" and
    2: "train_loop E a m ls ds trl vl tgl task ?T s1 = (None, s2)" and
    3: "finish E a ls tel vl s2 = (None, s')"
    by (auto simp: train_model_def split: prod.splits option.splits)
  have i: "count_iters ?s0 = 0" "optimizer_steps (trace ?s0) = 0"
    by (simp_all add: init_state_def optimizer_steps_def)
  note e1 = meta_setup_effect[OF 1]
  note e2 = train_loop_effect[OF 2]
  note e3 = finish_effect[OF 3]
  from e1 i have c1: "count_iters s1 = 0" "optimizer_steps (trace s1) = 0" by simp_all
  from e2 c1 have d: "int (optimizer_steps (trace s2)) = count_iters s2"
    and nl: "\<not> count_iters s2 < ?T" and eq: "0 \<le> ?T \<longrightarrow> count_iters s2 = ?T" by simp_all
  have c2: "count_iters s2 = max 0 ?T"
  proof (cases "0 \<le> ?T")
    case True
    with eq show ?thesis by simp
  next
    case False
    then have "\<not> count_iters s1 < ?T" using c1 by simp
    with 2 have "s2 = s1" by (simp add: train_loop.simps)
    with c1 False show ?thesis by simp
  qed
  from d c2 have "optimizer_steps (trace s2) = nat (max 0 ?T)" by linarith
  with c2 e3 show ?thesis by (simp add: max_def)
qed

section \<open>Evaluating the concrete instance\<close>

lemmas demo_defs =
  demo_env_def demo_args_def demo_meta_args_def demo_heap_def demo_loader_def demo_targets_def
  demo_train_def demo_val_def demo_val_wrong_def

lemmas scorer_defs =
  cosine_similarity_def matmul_t_def scale_def dot_def normalize_rows_def l2norm_def
  predict_def argmax_def cls_acc_spec_def count_correct_def

lemmas eval_defs =
  eval_model_def eval_meta_init_def eval_batch_def eval_acc0_def set_training_def log_event_def

lemmas train_defs =
  train_model_def init_state_def meta_setup_def finish_def train_loop.simps run_epoch_def
  begin_epoch_def after_epoch_def epoch_log_def call_eval_model_def save_best_def
  train_batch_def load_label_features_def forward_images_def forward_similarity_def
  backward_step_def update_memory_def update_row_def setitem_row_def py_slice_upto_def
  target_update_needed_def reshape3_def shape0_def shape1_def os_path_join_def

section \<open>Recomputation of the target features\<close>

text \<open>
  Claim C10. The recomputation condition is exactly: low-rank adaptation with task
  \<^verbatim>\<open>image2text\<close> and encoder \<^verbatim>\<open>text\<close> or \<^verbatim>\<open>both\<close>, or low-rank adaptation with task
  \<^verbatim>\<open>image2image\<close> and encoder \<^verbatim>\<open>vision\<close> or \<^verbatim>\<open>both\<close>, or BitFit. In every training step,
  however it ends, the target-feature provider is called once if the condition holds
  and not at all otherwise, and the Target Feature Set after the step is the
  provider's answer in the first case and the set before the step in the second. When
  the condition does not hold the whole loop, and the whole of \<^verbatim>\<open>train_model\<close>, leave
  the Target Feature Set that was passed in unchanged.
\<close>

theorem target_features_recomputed:
  "(target_update_needed a task \<longleftrightarrow>
      (enable_lora a \<and> task = ''image2text'' \<and> (encoder a = ''text'' \<or> encoder a = ''both'')) \<or>
      (enable_lora a \<and> task = ''image2image'' \<and> (encoder a = ''vision'' \<or> encoder a = ''both'')) \<or>
      enable_BitFit a) \<and>
   target_feature_calls (trace (snd (train_batch E a m ls ds tgl task b s))) =
     target_feature_calls (trace s) + (if target_update_needed a task then 1 else 0) \<and>
   target_features (snd (train_batch E a m ls ds tgl task b s)) =
     (if target_update_needed a task
      then (if task = ''image2text'' then get_text_target_features E (heap s ! m) ds
            else get_vision_target_features E (heap s ! m) tgl)
      else target_features s) \<and>
   (\<not> target_update_needed a task \<longrightarrow>
      target_features (snd (train_loop E a m ls ds trl vl tgl task T s)) = target_features s \<and>
      target_features (snd (train_model E a h m ls ds trl vl tel tgl tf task)) = tf)"
proof -
  have 1: "target_update_needed a task \<longleftrightarrow>
      (enable_lora a \<and> task = ''image2text'' \<and> (encoder a = ''text'' \<or> encoder a = ''both'')) \<or>
      (enable_lora a \<and> task = ''image2image'' \<and> (encoder a = ''vision'' \<or> encoder a = ''both'')) \<or>
      enable_BitFit a"
    by (simp add: target_update_needed_def)
  obtain xb sb where tb: "train_batch E a m ls ds tgl task b s = (xb, sb)"
    by (cases "train_batch E a m ls ds tgl task b s")
  from train_batch_effect[OF tb] tb
  have 2: "target_feature_calls (trace (snd (train_batch E a m ls ds tgl task b s))) =
     target_feature_calls (trace s) + (if target_update_needed a task then 1 else 0) \<and>
   target_features (snd (train_batch E a m ls ds tgl task b s)) =
     (if target_update_needed a task
      then (if task = ''image2text'' then get_text_target_features E (heap s ! m) ds
            else get_vision_target_features E (heap s ! m) tgl)
      else target_features s)" by simp
  obtain xl sl where tl: "train_loop E a m ls ds trl vl tgl task T s = (xl, sl)"
    by (cases "train_loop E a m ls ds trl vl tgl task T s")
  have 3: "target_features (snd (train_loop E a m ls ds trl vl tgl task T s)) = target_features s"
    if "\<not> target_update_needed a task"
    using train_loop_effect[OF tl] tl that by simp
  have 4: "target_features (snd (train_model E a h m ls ds trl vl tel tgl tf task)) = tf"
    if n: "\<not> target_update_needed a task"
  proof -
    let ?s0 = "init_state E a h m tf"
    obtain x1 s1 where m1: "meta_setup E a m vl ?s0 = (x1, s1)"
      by (cases "meta_setup E a m vl ?s0")
    obtain x2 s2 where m2: "train_loop E a m ls ds trl vl tgl task (n_iters a * shots a) s1 = (x2, s2)"
      by (cases "train_loop E a m ls ds trl vl tgl task (n_iters a * shots a) s1")
    obtain x3 s3 where m3: "finish E a ls tel vl s2 = (x3, s3)"
      by (cases "finish E a ls tel vl s2")
    from meta_setup_effect[OF m1] have t1: "target_features s1 = tf" by (simp add: init_state_def)
    from train_loop_effect[OF m2] n t1 have t2: "target_features s2 = tf" by simp
    from finish_effect[OF m3] t2 have t3: "target_features s3 = tf" by simp
    from m1 m2 m3 t1 t2 t3 show ?thesis
      by (cases x1; cases x2) (simp_all add: train_model_def)
  qed
  from 1 2 3 4 show ?thesis by blast
qed

theorem target_features_recomputed_witness:
  "\<not> target_update_needed demo_args ''image2text'' \<and>
   target_features (snd (train_model demo_env demo_args demo_heap 0 100 () demo_loader demo_val
      demo_val [] demo_targets ''image2text'')) = demo_targets \<and>
   target_update_needed (demo_args\<lparr>enable_BitFit := True\<rparr>) ''image2text'' \<and>
   target_features (snd (train_batch demo_env (demo_args\<lparr>enable_BitFit := True\<rparr>) 0 100 () []
      ''image2text'' ([0], [0], []) (init_state demo_env demo_args demo_heap 0 [[0, 1], [1, 0]]))) =
     [[1, 0], [0, 1]]"
  using target_features_recomputed [of demo_args "''image2text''" demo_env 0 100 "()" "[]"
      "([0], [0], [])" "init_state demo_env demo_args demo_heap 0 [[0, 1], [1, 0]]"
      demo_loader demo_val 8 demo_heap "demo_val" demo_targets]
    target_features_recomputed [of "demo_args\<lparr>enable_BitFit := True\<rparr>" "''image2text''" demo_env 0
      100 "()" "[]" "([0], [0], [])" "init_state demo_env demo_args demo_heap 0 [[0, 1], [1, 0]]"
      demo_loader demo_val 8 demo_heap "demo_val" demo_targets]
  by (simp add: target_update_needed_def demo_args_def demo_env_def demo_heap_def init_state_def)

section \<open>Best validation accuracy\<close>

lemma run_epoch_best:
  "best_acc s \<le> best_acc (snd (run_epoch E a m ls ds trl vl tgl task T s))"
proof -
  obtain x s' where r: "run_epoch E a m ls ds trl vl tgl task T s = (x, s')"
    by (cases "run_epoch E a m ls ds trl vl tgl task T s")
  from run_epoch_effect[OF r] r show ?thesis by (simp add: run_frame_def)
qed

lemma train_loop_best:
  "best_acc s \<le> best_acc (snd (train_loop E a m ls ds trl vl tgl task T s))"
proof -
  obtain x s' where r: "train_loop E a m ls ds trl vl tgl task T s = (x, s')"
    by (cases "train_loop E a m ls ds trl vl tgl task T s")
  from train_loop_effect[OF r] r show ?thesis by (simp add: run_frame_def)
qed

text \<open>
  Claim C8. The comparison at line 181 keeps the larger of the recorded best accuracy
  and the epoch's validation accuracy, so the recorded best never decreases: not
  across the end of an epoch, not across a pass of the \<^verbatim>\<open>while\<close> body, not across the
  whole loop, however they end. When the end of an epoch completes, with \<open>v\<close> the
  validation accuracy it has just printed: if \<open>v\<close> is strictly greater than the best so
  far, the best becomes \<open>v\<close> and the best model becomes a new object, a copy of the live
  model; if \<open>v\<close> is equal or smaller, the best accuracy, the best-model reference and
  the number of objects in the store are as before.
\<close>

theorem best_accuracy_monotone:
  "best_acc (save_best m v s) = max (best_acc s) v \<and>
   best_model (save_best m v s) = (if best_acc s < v then length (heap s) else best_model s) \<and>
   (\<not> best_acc s < v \<longrightarrow> save_best m v s = s) \<and>
   (\<forall>s'. after_epoch E a m ls vl T s = (None, s') \<longrightarrow>
      (\<exists>v. filter is_selection (trace s') = filter is_selection (trace s) @
              [EvalModel m (PyLoader vl) (PyLoader vl) (PyTensor (target_features s)), PrintVal v] @
              (if best_acc s < v then [DeepCopy m (length (heap s))] else []) \<and>
           best_acc s' = max (best_acc s) v \<and>
           best_model s' = (if best_acc s < v then length (heap s) else best_model s) \<and>
           length (heap s') = (if best_acc s < v then Suc (length (heap s)) else length (heap s)))) \<and>
   best_acc s \<le> best_acc (snd (after_epoch E a m ls vl T s)) \<and>
   best_acc s \<le> best_acc (snd (run_epoch E a m ls ds trl vl tgl task T s)) \<and>
   best_acc s \<le> best_acc (snd (train_loop E a m ls ds trl vl tgl task T s))"
proof -
  have c1: "best_acc (save_best m v s) = max (best_acc s) v"
    and c2: "best_model (save_best m v s) = (if best_acc s < v then length (heap s) else best_model s)"
    and c3: "\<not> best_acc s < v \<longrightarrow> save_best m v s = s"
    by (simp_all add: save_best_def log_event_def)
  have c4: "\<forall>s'. after_epoch E a m ls vl T s = (None, s') \<longrightarrow>
      (\<exists>v. filter is_selection (trace s') = filter is_selection (trace s) @
              [EvalModel m (PyLoader vl) (PyLoader vl) (PyTensor (target_features s)), PrintVal v] @
              (if best_acc s < v then [DeepCopy m (length (heap s))] else []) \<and>
           best_acc s' = max (best_acc s) v \<and>
           best_model s' = (if best_acc s < v then length (heap s) else best_model s) \<and>
           length (heap s') = (if best_acc s < v then Suc (length (heap s)) else length (heap s)))"
  proof (intro allI impI)
    fix s' assume "after_epoch E a m ls vl T s = (None, s')"
    from after_epoch_selection[OF this] show "\<exists>v. filter is_selection (trace s') = filter is_selection (trace s) @
              [EvalModel m (PyLoader vl) (PyLoader vl) (PyTensor (target_features s)), PrintVal v] @
              (if best_acc s < v then [DeepCopy m (length (heap s))] else []) \<and>
           best_acc s' = max (best_acc s) v \<and>
           best_model s' = (if best_acc s < v then length (heap s) else best_model s) \<and>
           length (heap s') = (if best_acc s < v then Suc (length (heap s)) else length (heap s))"
      by blast
  qed
  obtain x s1 where r: "after_epoch E a m ls vl T s = (x, s1)"
    by (cases "after_epoch E a m ls vl T s")
  from after_epoch_effect[OF r] r
  have c5: "best_acc s \<le> best_acc (snd (after_epoch E a m ls vl T s))"
    by (simp add: run_frame_def)
  have c6: "best_acc s \<le> best_acc (snd (run_epoch E a m ls ds trl vl tgl task T s))"
    by (rule run_epoch_best)
  have c7: "best_acc s \<le> best_acc (snd (train_loop E a m ls ds trl vl tgl task T s))"
    by (rule train_loop_best)
  show ?thesis by (intro conjI; fact)
qed

text \<open>In the run with the meta-adapter the first epoch validates at accuracy 1, above
  the initial 0, and takes a snapshot; the second validates at 1 again, a tie, and
  leaves the snapshot and the recorded best as they are.\<close>

theorem best_accuracy_monotone_witness:
  "filter is_selection (trace (snd (train_model demo_env demo_meta_args demo_heap 0 100 ()
      demo_train demo_val demo_val [] demo_targets ''image2text''))) =
     [EvalModel 0 (PyLoader demo_val) (PyLoader demo_val) (PyTensor demo_targets), PrintVal 1,
      DeepCopy 0 1,
      EvalModel 0 (PyLoader demo_val) (PyLoader demo_val) (PyTensor demo_targets), PrintVal 1,
      EvalModel 1 (PyLoader demo_val) (PyLoader demo_val) (PyTensor demo_targets), PrintTest 1] \<and>
   \<not> best_acc demo_ready < 0 \<and> save_best 0 0 demo_ready = demo_ready \<and>
   fst (after_epoch demo_env demo_meta_args 0 100 demo_val 0 demo_ready) = None \<and>
   best_acc demo_ready = 0 \<and>
   best_acc (snd (after_epoch demo_env demo_meta_args 0 100 demo_val 0 demo_ready)) = 1 \<and>
   best_model (snd (after_epoch demo_env demo_meta_args 0 100 demo_val 0 demo_ready)) = 1 \<and>
   length (heap (snd (after_epoch demo_env demo_meta_args 0 100 demo_val 0 demo_ready))) = 2"
proof -
  obtain x s' where e: "after_epoch demo_env demo_meta_args 0 100 demo_val 0 demo_ready = (x, s')"
    by (cases "after_epoch demo_env demo_meta_args 0 100 demo_val 0 demo_ready")
  have v: "x = None \<and> filter is_selection (trace s') =
      [EvalModel 0 (PyLoader demo_val) (PyLoader demo_val) (PyTensor demo_targets), PrintVal 1,
       DeepCopy 0 1]"
    using e
    by (auto simp: demo_ready_def demo_defs scorer_defs eval_defs train_defs Let_def
        is_selection_def)
  have i: "best_acc demo_ready = 0" "filter is_selection (trace demo_ready) = []"
      "length (heap demo_ready) = 1"
    by (simp_all add: demo_ready_def demo_defs train_defs eval_defs Let_def is_selection_def)
  from best_accuracy_monotone [of 0 0 demo_ready demo_env demo_meta_args 100 demo_val 0]
  have h: "save_best 0 0 demo_ready = demo_ready" and
    "\<forall>s'. after_epoch demo_env demo_meta_args 0 100 demo_val 0 demo_ready = (None, s') \<longrightarrow>
      (\<exists>v. filter is_selection (trace s') = filter is_selection (trace demo_ready) @
              [EvalModel 0 (PyLoader demo_val) (PyLoader demo_val)
                 (PyTensor (target_features demo_ready)), PrintVal v] @
              (if best_acc demo_ready < v then [DeepCopy 0 (length (heap demo_ready))] else []) \<and>
           best_acc s' = max (best_acc demo_ready) v \<and>
           best_model s' = (if best_acc demo_ready < v then length (heap demo_ready)
                            else best_model demo_ready) \<and>
           length (heap s') = (if best_acc demo_ready < v then Suc (length (heap demo_ready))
                               else length (heap demo_ready)))"
    using i by simp_all
  with e v obtain w where
    "filter is_selection (trace s') = filter is_selection (trace demo_ready) @
              [EvalModel 0 (PyLoader demo_val) (PyLoader demo_val)
                 (PyTensor (target_features demo_ready)), PrintVal w] @
              (if best_acc demo_ready < w then [DeepCopy 0 (length (heap demo_ready))] else [])"
    "best_acc s' = max (best_acc demo_ready) w"
    "best_model s' = (if best_acc demo_ready < w then length (heap demo_ready)
                            else best_model demo_ready)"
    "length (heap s') = (if best_acc demo_ready < w then Suc (length (heap demo_ready))
                               else length (heap demo_ready))"
    by blast
  with v i have "best_acc s' = 1 \<and> best_model s' = 1 \<and> length (heap s') = 2" by simp
  moreover have "filter is_selection (trace (snd (train_model demo_env demo_meta_args demo_heap 0 100 ()
      demo_train demo_val demo_val [] demo_targets ''image2text''))) =
     [EvalModel 0 (PyLoader demo_val) (PyLoader demo_val) (PyTensor demo_targets), PrintVal 1,
      DeepCopy 0 1,
      EvalModel 0 (PyLoader demo_val) (PyLoader demo_val) (PyTensor demo_targets), PrintVal 1,
      EvalModel 1 (PyLoader demo_val) (PyLoader demo_val) (PyTensor demo_targets), PrintTest 1]"
    by (simp add: demo_defs scorer_defs eval_defs train_defs Let_def is_selection_def)
  ultimately show ?thesis using e v i h by simp
qed

section \<open>What is reported after an epoch\<close>




section \<open>The best-model snapshot and the live model\<close>

lemma batch_frame_snapshot_inv:
  "batch_frame m s s' \<Longrightarrow> snapshot_inv m s \<Longrightarrow> snapshot_inv m s'"
  by (auto simp: batch_frame_def snapshot_inv_def)

lemma after_epoch_snapshot_inv:
  assumes "after_epoch E a m ls vl T s = (x, s')" and inv: "snapshot_inv m s"
  shows "snapshot_inv m s'"
  using assms(1)
proof (cases rule: after_epoch_cases)
  case (log_raises e)
  from epoch_log_effect[OF log_raises(1)] inv show ?thesis by (simp add: snapshot_inv_def)
next
  case (eval_raises s1 e)
  note l = epoch_log_effect[OF eval_raises(1)]
  note c = call_eval_model_locals[OF eval_raises(2)]
  from l c inv show ?thesis by (simp add: snapshot_inv_def set_training_def)
next
  case (completes s1 r s2)
  from completes(3) assms(1) have n: "after_epoch E a m ls vl T s = (None, s')" by simp
  from after_epoch_selection[OF n] obtain v where
    "best_acc s' = max (best_acc s) v"
    "best_model s' = (if best_acc s < v then length (heap s) else best_model s)"
    "length (heap s') = (if best_acc s < v then Suc (length (heap s)) else length (heap s))"
    by blast
  with inv show ?thesis by (auto simp: snapshot_inv_def max_def split: if_splits)
qed

lemma run_epoch_snapshot_inv:
  assumes "run_epoch E a m ls ds trl vl tgl task T s = (x, s')" and inv: "snapshot_inv m s"
  shows "snapshot_inv m s'"
  using assms(1)
proof (cases rule: run_epoch_cases)
  case (batch_raises e)
  note b = begin_epoch_effect[OF refl, of m s]
  note t = train_epoch_effect[OF batch_raises(1)]
  from b t have "batch_frame m s s'" by (blast intro: batch_frame_trans)
  then show ?thesis using inv by (rule batch_frame_snapshot_inv)
next
  case (epoch_done s1)
  note b = begin_epoch_effect[OF refl, of m s]
  note t = train_epoch_effect[OF epoch_done(1)]
  from b t have "batch_frame m s s1" by (blast intro: batch_frame_trans)
  then have "snapshot_inv m s1" using inv by (rule batch_frame_snapshot_inv)
  with epoch_done(2) show ?thesis by (rule after_epoch_snapshot_inv)
qed

lemma train_loop_snapshot_inv:
  "train_loop E a m ls ds trl vl tgl task T s = (x, s') \<Longrightarrow> snapshot_inv m s \<Longrightarrow>
   snapshot_inv m s'"
proof (induction E a m ls ds trl vl tgl task T s rule: train_loop.induct)
  case (1 E a m ls ds trl vl tgl task T s)
  show ?case
  proof (cases "count_iters s < T")
    case False
    with "1.prems" show ?thesis by (simp add: train_loop.simps)
  next
    case True
    obtain y s1 where r: "run_epoch E a m ls ds trl vl tgl task T s = (y, s1)"
      by (cases "run_epoch E a m ls ds trl vl tgl task T s")
    from run_epoch_snapshot_inv[OF r "1.prems"(2)] have i1: "snapshot_inv m s1" .
    show ?thesis
    proof (cases y)
      case (Some err)
      with True r "1.prems"(1) have "s' = s1" by (simp add: train_loop.simps)
      with i1 show ?thesis by simp
    next
      case None
      with True r "1.prems"(1) have l: "train_loop E a m ls ds trl vl tgl task T s1 = (x, s')"
        by (simp add: train_loop.simps)
      from "1.IH"[OF True r[symmetric] None l i1] show ?thesis .
    qed
  qed
qed

lemma train_model_snapshot_inv:
  assumes "m < length h"
  shows "snapshot_inv m (snd (train_model E a h m ls ds trl vl tel tgl tf task))"
proof -
  let ?s0 = "init_state E a h m tf"
  from assms have i0: "snapshot_inv m ?s0" by (simp add: snapshot_inv_def init_state_def)
  obtain x1 s1 where m1: "meta_setup E a m vl ?s0 = (x1, s1)"
    by (cases "meta_setup E a m vl ?s0")
  obtain x2 s2 where m2: "train_loop E a m ls ds trl vl tgl task (n_iters a * shots a) s1 = (x2, s2)"
    by (cases "train_loop E a m ls ds trl vl tgl task (n_iters a * shots a) s1")
  obtain x3 s3 where m3: "finish E a ls tel vl s2 = (x3, s3)"
    by (cases "finish E a ls tel vl s2")
  from meta_setup_effect[OF m1] i0 have i1: "snapshot_inv m s1" by (simp add: snapshot_inv_def)
  from train_loop_snapshot_inv[OF m2 i1] have i2: "snapshot_inv m s2" .
  from finish_effect[OF m3] i2 have i3: "snapshot_inv m s3" by (simp add: snapshot_inv_def)
  from m1 m2 m3 i1 i2 i3 show ?thesis
    by (cases x1; cases x2) (simp_all add: train_model_def)
qed

text \<open>
  Claim C7 (as amended). At line 118 the best model is the live model itself, one
  object under two names, and the recorded best accuracy is 0. A training step changes
  no object of the store other than the live model and does not change the best-model
  reference; the whole \<^verbatim>\<open>while\<close> loop changes no object that was in the store when
  it started, other than the live model. When the end of an epoch completes, with \<open>v\<close>
  the validation accuracy it has just printed: if \<open>v\<close> is strictly above the best so
  far, a copy is taken, the best accuracy becomes \<open>v\<close> and the best model becomes that
  new object, different from the live model, holding the live model's parameters of
  that moment and placed on the CPU; if not, the reference and the best accuracy stay.
  Hence at every point of a run, and at the end of \<^verbatim>\<open>train_model\<close> however it ends: as
  long as no validation accuracy above the initial 0 has been observed the recorded
  best is 0 and the best model is the live model itself, and once one has been observed
  the recorded best is above 0 and the best model is another object of the store,
  which later optimizer steps never change. The final evaluation moves the best model
  to the compute device, keeps its parameters, and is called on it with the test
  loader. There is a single best-model reference throughout.
\<close>

theorem snapshot_independent:
  "best_model (init_state E a h m tf) = m \<and>
   best_acc (init_state E a h m tf) = 0 \<and>
   best_model (snd (train_batch E a m ls ds tgl task b s)) = best_model s \<and>
   (\<forall>ad. ad \<noteq> m \<longrightarrow> heap (snd (train_batch E a m ls ds tgl task b s)) ! ad = heap s ! ad) \<and>
   (\<forall>ad<length (heap s). ad \<noteq> m \<longrightarrow>
      heap (snd (train_loop E a m ls ds trl vl tgl task T s)) ! ad = heap s ! ad) \<and>
   (\<forall>s'. after_epoch E a m ls vl T s = (None, s') \<longrightarrow> m < length (heap s) \<longrightarrow>
      (\<exists>v. filter is_selection (trace s') = filter is_selection (trace s) @
              [EvalModel m (PyLoader vl) (PyLoader vl) (PyTensor (target_features s)), PrintVal v] @
              (if best_acc s < v then [DeepCopy m (length (heap s))] else []) \<and>
           best_acc s' = max (best_acc s) v \<and>
           best_model s' = (if best_acc s < v then length (heap s) else best_model s) \<and>
           (best_acc s < v \<longrightarrow>
              best_model s' \<noteq> m \<and> best_model s' < length (heap s') \<and>
              params (heap s' ! best_model s') = params (heap s ! m) \<and>
              device (heap s' ! best_model s') = CPU))) \<and>
   (snapshot_inv m s \<longrightarrow>
      snapshot_inv m (snd (after_epoch E a m ls vl T s)) \<and>
      snapshot_inv m (snd (run_epoch E a m ls ds trl vl tgl task T s)) \<and>
      snapshot_inv m (snd (train_loop E a m ls ds trl vl tgl task T s))) \<and>
   (m < length h \<longrightarrow>
      (best_acc (snd (train_model E a h m ls ds trl vl tel tgl tf task)) = 0 \<and>
       best_model (snd (train_model E a h m ls ds trl vl tel tgl tf task)) = m \<or>
       0 < best_acc (snd (train_model E a h m ls ds trl vl tel tgl tf task)) \<and>
       best_model (snd (train_model E a h m ls ds trl vl tel tgl tf task)) \<noteq> m \<and>
       best_model (snd (train_model E a h m ls ds trl vl tel tgl tf task)) <
         length (heap (snd (train_model E a h m ls ds trl vl tel tgl tf task))))) \<and>
   (\<forall>x s'. finish E a ls tel vl s = (x, s') \<longrightarrow> best_model s < length (heap s) \<longrightarrow>
      best_model s' = best_model s \<and>
      device (heap s' ! best_model s) = CUDA \<and>
      params (heap s' ! best_model s) = params (heap s ! best_model s) \<and>
      (x = None \<longrightarrow>
         reports (trace s') = reports (trace s) @
           [EvalModel (best_model s) (PyLoader tel) (PyLoader vl)
              (PyTensor (target_features s))]))"
proof -
  have c1: "best_model (init_state E a h m tf) = m"
    and c2: "best_acc (init_state E a h m tf) = 0"
    by (simp_all add: init_state_def)
  obtain xb sb where tb: "train_batch E a m ls ds tgl task b s = (xb, sb)"
    by (cases "train_batch E a m ls ds tgl task b s")
  from train_batch_effect[OF tb] tb
  have c3: "best_model (snd (train_batch E a m ls ds tgl task b s)) = best_model s"
    and c4: "\<forall>ad. ad \<noteq> m \<longrightarrow> heap (snd (train_batch E a m ls ds tgl task b s)) ! ad = heap s ! ad"
    by (simp_all add: batch_frame_def)
  obtain xl sl where tl: "train_loop E a m ls ds trl vl tgl task T s = (xl, sl)"
    by (cases "train_loop E a m ls ds trl vl tgl task T s")
  from train_loop_effect[OF tl] tl
  have c5: "\<forall>ad<length (heap s). ad \<noteq> m \<longrightarrow>
      heap (snd (train_loop E a m ls ds trl vl tgl task T s)) ! ad = heap s ! ad"
    by (simp add: run_frame_def)
  have c6: "\<forall>s'. after_epoch E a m ls vl T s = (None, s') \<longrightarrow> m < length (heap s) \<longrightarrow>
      (\<exists>v. filter is_selection (trace s') = filter is_selection (trace s) @
              [EvalModel m (PyLoader vl) (PyLoader vl) (PyTensor (target_features s)), PrintVal v] @
              (if best_acc s < v then [DeepCopy m (length (heap s))] else []) \<and>
           best_acc s' = max (best_acc s) v \<and>
           best_model s' = (if best_acc s < v then length (heap s) else best_model s) \<and>
           (best_acc s < v \<longrightarrow>
              best_model s' \<noteq> m \<and> best_model s' < length (heap s') \<and>
              params (heap s' ! best_model s') = params (heap s ! m) \<and>
              device (heap s' ! best_model s') = CPU))"
  proof (intro allI impI)
    fix s' assume "after_epoch E a m ls vl T s = (None, s')" and m: "m < length (heap s)"
    from after_epoch_selection[OF this(1)] obtain v where
      sel: "filter is_selection (trace s') = filter is_selection (trace s) @
              [EvalModel m (PyLoader vl) (PyLoader vl) (PyTensor (target_features s)), PrintVal v] @
              (if best_acc s < v then [DeepCopy m (length (heap s))] else [])" and
      ba: "best_acc s' = max (best_acc s) v" and
      bm: "best_model s' = (if best_acc s < v then length (heap s) else best_model s)" and
      ln: "length (heap s') = (if best_acc s < v then Suc (length (heap s)) else length (heap s))" and
      cp: "best_acc s < v \<longrightarrow> m < length (heap s) \<longrightarrow>
             params (heap s' ! length (heap s)) = params (heap s ! m) \<and>
             params (heap s' ! m) = params (heap s ! m) \<and>
             device (heap s' ! length (heap s)) = CPU"
      by blast
    from bm ln cp m have "best_acc s < v \<longrightarrow>
              best_model s' \<noteq> m \<and> best_model s' < length (heap s') \<and>
              params (heap s' ! best_model s') = params (heap s ! m) \<and>
              device (heap s' ! best_model s') = CPU"
      by auto
    with sel ba bm
    have "filter is_selection (trace s') = filter is_selection (trace s) @
              [EvalModel m (PyLoader vl) (PyLoader vl) (PyTensor (target_features s)), PrintVal v] @
              (if best_acc s < v then [DeepCopy m (length (heap s))] else []) \<and>
           best_acc s' = max (best_acc s) v \<and>
           best_model s' = (if best_acc s < v then length (heap s) else best_model s) \<and>
           (best_acc s < v \<longrightarrow>
              best_model s' \<noteq> m \<and> best_model s' < length (heap s') \<and>
              params (heap s' ! best_model s') = params (heap s ! m) \<and>
              device (heap s' ! best_model s') = CPU)"
      by (intro conjI)
    then show "\<exists>v. filter is_selection (trace s') = filter is_selection (trace s) @
              [EvalModel m (PyLoader vl) (PyLoader vl) (PyTensor (target_features s)), PrintVal v] @
              (if best_acc s < v then [DeepCopy m (length (heap s))] else []) \<and>
           best_acc s' = max (best_acc s) v \<and>
           best_model s' = (if best_acc s < v then length (heap s) else best_model s) \<and>
           (best_acc s < v \<longrightarrow>
              best_model s' \<noteq> m \<and> best_model s' < length (heap s') \<and>
              params (heap s' ! best_model s') = params (heap s ! m) \<and>
              device (heap s' ! best_model s') = CPU)" ..
  qed
  have c7: "snapshot_inv m s \<longrightarrow>
      snapshot_inv m (snd (after_epoch E a m ls vl T s)) \<and>
      snapshot_inv m (snd (run_epoch E a m ls ds trl vl tgl task T s)) \<and>
      snapshot_inv m (snd (train_loop E a m ls ds trl vl tgl task T s))"
  proof
    assume inv: "snapshot_inv m s"
    obtain xa sa where ta: "after_epoch E a m ls vl T s = (xa, sa)"
      by (cases "after_epoch E a m ls vl T s")
    obtain xr sr where tr: "run_epoch E a m ls ds trl vl tgl task T s = (xr, sr)"
      by (cases "run_epoch E a m ls ds trl vl tgl task T s")
    from after_epoch_snapshot_inv[OF ta inv] run_epoch_snapshot_inv[OF tr inv]
      train_loop_snapshot_inv[OF tl inv] ta tr tl
    show "snapshot_inv m (snd (after_epoch E a m ls vl T s)) \<and>
      snapshot_inv m (snd (run_epoch E a m ls ds trl vl tgl task T s)) \<and>
      snapshot_inv m (snd (train_loop E a m ls ds trl vl tgl task T s))"
      by simp
  qed
  have c8: "m < length h \<longrightarrow>
      (best_acc (snd (train_model E a h m ls ds trl vl tel tgl tf task)) = 0 \<and>
       best_model (snd (train_model E a h m ls ds trl vl tel tgl tf task)) = m \<or>
       0 < best_acc (snd (train_model E a h m ls ds trl vl tel tgl tf task)) \<and>
       best_model (snd (train_model E a h m ls ds trl vl tel tgl tf task)) \<noteq> m \<and>
       best_model (snd (train_model E a h m ls ds trl vl tel tgl tf task)) <
         length (heap (snd (train_model E a h m ls ds trl vl tel tgl tf task))))"
    using train_model_snapshot_inv[of m h E a ls ds trl vl tel tgl tf task]
    by (simp add: snapshot_inv_def)
  have c9: "\<forall>x s'. finish E a ls tel vl s = (x, s') \<longrightarrow> best_model s < length (heap s) \<longrightarrow>
      best_model s' = best_model s \<and>
      device (heap s' ! best_model s) = CUDA \<and>
      params (heap s' ! best_model s) = params (heap s ! best_model s) \<and>
      (x = None \<longrightarrow>
         reports (trace s') = reports (trace s) @
           [EvalModel (best_model s) (PyLoader tel) (PyLoader vl)
              (PyTensor (target_features s))])"
  proof (intro allI impI)
    fix x s' assume "finish E a ls tel vl s = (x, s')" and "best_model s < length (heap s)"
    with finish_effect[OF this(1)]
    show "best_model s' = best_model s \<and>
      device (heap s' ! best_model s) = CUDA \<and>
      params (heap s' ! best_model s) = params (heap s ! best_model s) \<and>
      (x = None \<longrightarrow>
         reports (trace s') = reports (trace s) @
           [EvalModel (best_model s) (PyLoader tel) (PyLoader vl)
              (PyTensor (target_features s))])"
      by simp
  qed
  show ?thesis by (intro conjI; fact)
qed

text \<open>In the meta-adapter run the state at the start of the loop has best accuracy 0
  and the live model, address 0, as best model. The first validation, at accuracy 1,
  copies the live model to address 1. A training step on the state so reached changes
  the live model and leaves the copy as it is; the final evaluation finds the copy
  moved to the compute device with its parameters kept. The whole run ends with best
  accuracy 1 and best model 1.\<close>

theorem snapshot_independent_witness:
  "fst (after_epoch demo_env demo_meta_args 0 100 demo_val 0 demo_ready) = None \<and>
   (0::nat) < length (heap demo_ready) \<and>
   best_acc demo_ready = 0 \<and> best_model demo_ready = 0 \<and>
   best_acc demo_snapshot = 1 \<and> best_model demo_snapshot = 1 \<and>
   params (heap demo_snapshot ! 1) = params (heap demo_ready ! 0) \<and>
   device (heap demo_snapshot ! 1) = CPU \<and>
   heap (snd (train_batch demo_env demo_meta_args 0 100 () [] ''image2text'' ([0], [0], [])
          demo_snapshot)) ! 1 = heap demo_snapshot ! 1 \<and>
   params (heap (snd (train_batch demo_env demo_meta_args 0 100 () [] ''image2text'' ([0], [0], [])
          demo_snapshot)) ! 0) = Suc (params (heap demo_snapshot ! 0)) \<and>
   device (heap (snd (finish demo_env demo_meta_args 100 demo_test demo_val demo_snapshot)) ! 1) = CUDA \<and>
   params (heap (snd (finish demo_env demo_meta_args 100 demo_test demo_val demo_snapshot)) ! 1) =
     params (heap demo_snapshot ! 1) \<and>
   (0::nat) < length demo_heap \<and>
   best_acc (snd (train_model demo_env demo_meta_args demo_heap 0 100 () demo_train demo_val
          demo_test [] demo_targets ''image2text'')) = 1 \<and>
   best_model (snd (train_model demo_env demo_meta_args demo_heap 0 100 () demo_train demo_val
          demo_test [] demo_targets ''image2text'')) = 1"
proof -
  obtain x s' where e: "after_epoch demo_env demo_meta_args 0 100 demo_val 0 demo_ready = (x, s')"
    by (cases "after_epoch demo_env demo_meta_args 0 100 demo_val 0 demo_ready")
  have v: "x = None \<and> length (heap s') = 2 \<and>
      filter is_selection (trace s') =
        [EvalModel 0 (PyLoader demo_val) (PyLoader demo_val) (PyTensor demo_targets), PrintVal 1,
         DeepCopy 0 1]"
    using e
    by (auto simp: demo_ready_def demo_defs scorer_defs eval_defs train_defs Let_def
        is_selection_def)
  have i: "length (heap demo_ready) = 1" "best_model demo_ready = 0" "best_acc demo_ready = 0"
      "filter is_selection (trace demo_ready) = []"
    by (simp_all add: demo_ready_def demo_defs train_defs eval_defs Let_def is_selection_def)
  from e have sn: "demo_snapshot = s'" by (simp add: demo_snapshot_def)
  from e v have e': "after_epoch demo_env demo_meta_args 0 100 demo_val 0 demo_ready = (None, s')"
    by simp
  from i have m: "0 < length (heap demo_ready)" by simp
  note t1 = snapshot_independent [of demo_env demo_meta_args demo_heap 0 demo_targets 100 "()" "[]"
      "''image2text''" "([0], [0], [])" demo_ready demo_train demo_val 0 demo_test]
  note t16 = t1[THEN conjunct2, THEN conjunct2, THEN conjunct2, THEN conjunct2, THEN conjunct2,
      THEN conjunct1, rule_format, OF e' m]
  from t16 obtain w where
    w: "filter is_selection (trace s') = filter is_selection (trace demo_ready) @
          [EvalModel 0 (PyLoader demo_val) (PyLoader demo_val)
             (PyTensor (target_features demo_ready)), PrintVal w] @
          (if best_acc demo_ready < w then [DeepCopy 0 (length (heap demo_ready))] else [])"
    "best_acc s' = max (best_acc demo_ready) w"
    "best_model s' = (if best_acc demo_ready < w then length (heap demo_ready)
                      else best_model demo_ready)"
    "best_acc demo_ready < w \<longrightarrow>
       best_model s' \<noteq> 0 \<and> best_model s' < length (heap s') \<and>
       params (heap s' ! best_model s') = params (heap demo_ready ! 0) \<and>
       device (heap s' ! best_model s') = CPU"
    by blast
  note v3 = v[THEN conjunct2, THEN conjunct2]
  note eq = trans[OF w(1)[symmetric] v3]
  have "(filter is_selection (trace demo_ready) @
          [EvalModel 0 (PyLoader demo_val) (PyLoader demo_val)
             (PyTensor (target_features demo_ready)), PrintVal w] @
          (if best_acc demo_ready < w then [DeepCopy 0 (length (heap demo_ready))] else [])) ! 1
        = PrintVal w"
    by (simp add: i(4))
  with eq have "PrintVal w = (PrintVal 1 :: nat event)" by simp
  then have w1: "w = 1" by simp
  from w1 i have lt: "best_acc demo_ready < w" by simp
  from w(2) w1 i have a1: "best_acc s' = 1" by simp
  from w(3) lt i have a2: "best_model s' = 1" by simp
  from w(4) lt have "params (heap s' ! best_model s') = params (heap demo_ready ! 0) \<and>
      device (heap s' ! best_model s') = CPU" by blast
  with a1 a2 have a: "best_acc s' = 1" "best_model s' = 1"
    "params (heap s' ! 1) = params (heap demo_ready ! 0)" "device (heap s' ! 1) = CPU"
    by simp_all
  note t2 = snapshot_independent [of demo_env demo_meta_args demo_heap 0 demo_targets 100 "()" "[]"
      "''image2text''" "([0], [0], [])" demo_snapshot demo_train demo_val 0 demo_test]
  have ne: "(1::nat) \<noteq> 0" by simp
  note b = t2[THEN conjunct2, THEN conjunct2, THEN conjunct2, THEN conjunct1, rule_format, OF ne]
  obtain y s2 where f: "finish demo_env demo_meta_args 100 demo_test demo_val demo_snapshot = (y, s2)"
    by (cases "finish demo_env demo_meta_args 100 demo_test demo_val demo_snapshot")
  from sn v a have bm: "best_model demo_snapshot < length (heap demo_snapshot)" by simp
  note t29 = t2[THEN conjunct2, THEN conjunct2, THEN conjunct2, THEN conjunct2, THEN conjunct2,
      THEN conjunct2, THEN conjunct2, THEN conjunct2, rule_format, OF f bm]
  from t29 sn a have c: "device (heap s2 ! 1) = CUDA" "params (heap s2 ! 1) = params (heap s' ! 1)"
    by simp_all
  have d: "params (heap (snd (train_batch demo_env demo_meta_args 0 100 () [] ''image2text''
      ([0], [0], []) demo_snapshot)) ! 0) = Suc (params (heap demo_snapshot ! 0))"
    using e
    by (auto simp: demo_snapshot_def demo_ready_def demo_defs scorer_defs eval_defs train_defs
        Let_def)
  have hl: "(0::nat) < length demo_heap" by (simp add: demo_heap_def)
  note t18 = t1[THEN conjunct2, THEN conjunct2, THEN conjunct2, THEN conjunct2, THEN conjunct2,
      THEN conjunct2, THEN conjunct2, THEN conjunct1, rule_format, OF hl]
  have r: "best_acc (snd (train_model demo_env demo_meta_args demo_heap 0 100 () demo_train
      demo_val demo_test [] demo_targets ''image2text'')) = 1 \<and>
    length (heap (snd (train_model demo_env demo_meta_args demo_heap 0 100 () demo_train
      demo_val demo_test [] demo_targets ''image2text''))) = 2"
    by (simp add: demo_defs demo_test_def scorer_defs eval_defs train_defs Let_def)
  from t18 r have g: "best_model (snd (train_model demo_env demo_meta_args demo_heap 0 100 ()
      demo_train demo_val demo_test [] demo_targets ''image2text'')) = 1"
    by auto
  from e v i sn a b c d f hl r g show ?thesis by simp
qed

text \<open>
  Claim C7 as stated fails when no validation accuracy ever exceeds the initial best of
  0. With a validation loader on which every prediction is wrong, the comparison at
  line 181 never succeeds and no copy is made: after the run the store still holds one
  object, the best model is the live model at address 0, its parameters have taken
  both optimizer steps made after line 118, and the test evaluation was called on it.
\<close>

theorem snapshot_alias_counterexample:
  "fst (train_model demo_env demo_meta_args demo_heap 0 100 () demo_train demo_val_wrong demo_test
          [] demo_targets ''image2text'') = None \<and>
   best_model (snd (train_model demo_env demo_meta_args demo_heap 0 100 () demo_train
          demo_val_wrong demo_test [] demo_targets ''image2text'')) = 0 \<and>
   heap (snd (train_model demo_env demo_meta_args demo_heap 0 100 () demo_train
          demo_val_wrong demo_test [] demo_targets ''image2text'')) =
     [\<lparr>params = 2, training = False, device = CUDA\<rparr>] \<and>
   params (demo_heap ! 0) = 0 \<and>
   filter is_selection (trace (snd (train_model demo_env demo_meta_args demo_heap 0 100 ()
          demo_train demo_val_wrong demo_test [] demo_targets ''image2text''))) =
     [EvalModel 0 (PyLoader demo_val_wrong) (PyLoader demo_val_wrong) (PyTensor demo_targets),
      PrintVal 0,
      EvalModel 0 (PyLoader demo_val_wrong) (PyLoader demo_val_wrong) (PyTensor demo_targets),
      PrintVal 0,
      EvalModel 0 (PyLoader demo_test) (PyLoader demo_val_wrong) (PyTensor demo_targets),
      PrintTest 1]"
  by (simp add: demo_defs demo_test_def scorer_defs eval_defs train_defs Let_def is_selection_def)

section \<open>Training without the meta-adapter\<close>

lemma train_loop_first_pass:
  assumes "count_iters s < T"
    and "run_epoch E a m ls ds trl vl tgl task T s = (Some e, s')"
  shows "train_loop E a m ls ds trl vl tgl task T s = (Some e, s')"
  using assms by (simp add: train_loop.simps)

lemma run_epoch_without_adapter:
  assumes na: "\<not> enable_MetaAdapter a" and mq: "meta_query s = None"
    and r: "run_epoch E a m ls ds trl vl tgl task T s = (x, s')"
  shows "(x = Some (UnboundLocalError ''meta_query'') \<or>
          x = Some (UnboundLocalError ''image_features'') \<or> x = Some ZeroDivisionError) \<and>
         ((encoder a = ''vision'' \<or> encoder a = ''both'') \<longrightarrow> count_iters s < T \<longrightarrow>
          trl \<noteq> [] \<longrightarrow> (\<forall>b \<in> set trl. fst (snd b) \<noteq> []) \<longrightarrow>
            x = Some (UnboundLocalError ''meta_query'') \<and>
            count_iters s' = min (count_iters s + int (length trl)) T \<and>
            int (optimizer_steps (trace s')) - count_iters s' =
              int (optimizer_steps (trace s)) - count_iters s)"
  using r
proof (cases rule: run_epoch_cases)
  case (batch_raises e)
  from train_epoch_without_adapter[OF na batch_raises(1)] batch_raises(2)
  show ?thesis by auto
next
  case (epoch_done s1)
  note b = begin_epoch_effect[OF refl, of m s]
  note t = train_epoch_effect[OF epoch_done(1)]
  from b t have fr: "batch_frame m s s1" by (blast intro: batch_frame_trans)
  with mq have mq1: "meta_query s1 = None" by (simp add: batch_frame_def)
  note u = after_epoch_unbound[OF mq1 epoch_done(2)]
  note f = after_epoch_effect[OF epoch_done(2)]
  have "x = Some (UnboundLocalError ''meta_query'') \<and>
        count_iters s' = min (count_iters s + int (length trl)) T \<and>
        int (optimizer_steps (trace s')) - count_iters s' =
          int (optimizer_steps (trace s)) - count_iters s"
    if lt: "count_iters s < T" and ne: "trl \<noteq> []" and lab: "\<forall>b \<in> set trl. fst (snd b) \<noteq> []"
  proof -
    from lt b have lt0: "count_iters (begin_epoch m s) < T" by simp
    note c = train_epoch_exact_count[OF epoch_done(1) lt0]
    from ne obtain b0 bs where trl: "trl = b0 # bs" by (cases trl) auto
    from lt b have "0 < nat (T - count_iters (begin_epoch m s))" by simp
    then obtain k where "nat (T - count_iters (begin_epoch m s)) = Suc k"
      by (cases "nat (T - count_iters (begin_epoch m s))") auto
    with trl have "b0 \<in> set (take (nat (T - count_iters (begin_epoch m s))) trl)" by simp
    moreover from lab trl have "fst (snd b0) \<noteq> []" by simp
    ultimately have "tot_samples s1 \<noteq> 0" using c by blast
    with u have "x = Some (UnboundLocalError ''meta_query'')" by auto
    moreover from c b f have "count_iters s' = min (count_iters s + int (length trl)) T" by simp
    moreover from t b f have "int (optimizer_steps (trace s')) - count_iters s' =
          int (optimizer_steps (trace s)) - count_iters s" by simp
    ultimately show ?thesis by blast
  qed
  with u show ?thesis by blast
qed

text \<open>
  Claim C5 (as amended). With \<^verbatim>\<open>enable_MetaAdapter = False\<close> the locals \<^verbatim>\<open>meta_query\<close> and
  \<^verbatim>\<open>meta_key\<close> are never bound, and \<^verbatim>\<open>train_model\<close> never returns: every run ends in an
  exception, which is the unbound \<^verbatim>\<open>meta_query\<close>, the unbound \<^verbatim>\<open>image_features\<close> or a
  division by zero. No run calls the evaluation loop, prints a validation or test
  accuracy, takes a snapshot or saves a checkpoint; the best model is still the model
  passed in and the best accuracy still 0. When the encoder option is \<^verbatim>\<open>vision\<close> or
  \<^verbatim>\<open>both\<close>, \<open>total_iters\<close> is positive and the training loader is non-empty with at
  least one label in every batch, the exception is the unbound \<^verbatim>\<open>meta_query\<close> at the
  first validation call, after as many optimizer steps as the smaller of the loader's
  length and \<open>total_iters\<close>.
\<close>

theorem train_model_without_adapter:
  assumes "\<not> enable_MetaAdapter a"
  shows "(fst (train_model E a h m ls ds trl vl tel tgl tf task) = Some (UnboundLocalError ''meta_query'') \<or>
          fst (train_model E a h m ls ds trl vl tel tgl tf task) = Some (UnboundLocalError ''image_features'') \<or>
          fst (train_model E a h m ls ds trl vl tel tgl tf task) = Some ZeroDivisionError) \<and>
         filter is_selection (trace (snd (train_model E a h m ls ds trl vl tel tgl tf task))) = [] \<and>
         best_model (snd (train_model E a h m ls ds trl vl tel tgl tf task)) = m \<and>
         best_acc (snd (train_model E a h m ls ds trl vl tel tgl tf task)) = 0 \<and>
         ((encoder a = ''vision'' \<or> encoder a = ''both'') \<longrightarrow> 0 < n_iters a * shots a \<longrightarrow>
          trl \<noteq> [] \<longrightarrow> (\<forall>b \<in> set trl. fst (snd b) \<noteq> []) \<longrightarrow>
            fst (train_model E a h m ls ds trl vl tel tgl tf task) =
              Some (UnboundLocalError ''meta_query'') \<and>
            count_iters (snd (train_model E a h m ls ds trl vl tel tgl tf task)) =
              min (int (length trl)) (n_iters a * shots a) \<and>
            int (optimizer_steps (trace (snd (train_model E a h m ls ds trl vl tel tgl tf task)))) =
              min (int (length trl)) (n_iters a * shots a))"
proof -
  let ?T = "n_iters a * shots a"
  let ?s0 = "init_state E a h m tf"
  have i: "meta_query ?s0 = None" "count_iters ?s0 = 0" "trace ?s0 = []" "best_model ?s0 = m"
    "best_acc ?s0 = 0"
    by (simp_all add: init_state_def)
  from assms have ms: "meta_setup E a m vl ?s0 = (None, ?s0)" by (simp add: meta_setup_def)
  obtain x s1 where l: "train_loop E a m ls ds trl vl tgl task ?T ?s0 = (x, s1)"
    by (cases "train_loop E a m ls ds trl vl tgl task ?T ?s0")
  note le = train_loop_effect[OF l]
  from le i have sel1: "filter is_selection (trace s1) = []" "best_model s1 = m" "best_acc s1 = 0"
    "meta_query s1 = None"
    by (simp_all add: run_frame_def)
  show ?thesis
  proof (cases "0 < ?T")
    case False
    with i l have x: "x = None" "s1 = ?s0" by (simp_all add: train_loop.simps)
    obtain y s2 where f: "finish E a ls tel vl ?s0 = (y, s2)" by (cases "finish E a ls tel vl ?s0")
    from finish_effect[OF f] i have "y = Some (UnboundLocalError ''meta_query'')" "trace s2 = []"
      "best_model s2 = m" "best_acc s2 = 0"
      by simp_all
    moreover from ms l x f have "train_model E a h m ls ds trl vl tel tgl tf task = (y, s2)"
      by (simp add: train_model_def)
    ultimately show ?thesis using False by simp
  next
    case True
    with i have lt: "count_iters ?s0 < ?T" by simp
    obtain y s2 where r: "run_epoch E a m ls ds trl vl tgl task ?T ?s0 = (y, s2)"
      by (cases "run_epoch E a m ls ds trl vl tgl task ?T ?s0")
    note ru = run_epoch_without_adapter[OF assms i(1) r]
    from ru obtain e where y: "y = Some e" by auto
    from train_loop_first_pass[OF lt r[unfolded y]] l have xs: "x = Some e" "s1 = s2" by simp_all
    from ms l xs have tm: "train_model E a h m ls ds trl vl tel tgl tf task = (Some e, s2)"
      by (simp add: train_model_def)
    from ru y i sel1 xs tm show ?thesis
      by (simp add: optimizer_steps_def)
  qed
qed

text \<open>With the encoder option \<^verbatim>\<open>vision\<close>, \<open>total_iters = 8\<close> and a loader of three
  batches, the run stops at the first validation call, after three optimizer steps.\<close>

theorem train_model_without_adapter_witness:
  "\<not> enable_MetaAdapter demo_args \<and> encoder demo_args = ''vision'' \<and>
   0 < n_iters demo_args * shots demo_args \<and> demo_loader \<noteq> [] \<and>
   fst (train_model demo_env demo_args demo_heap 0 100 () demo_loader demo_val demo_test []
          demo_targets ''image2text'') = Some (UnboundLocalError ''meta_query'') \<and>
   count_iters (snd (train_model demo_env demo_args demo_heap 0 100 () demo_loader demo_val
          demo_test [] demo_targets ''image2text'')) = 3 \<and>
   filter is_selection (trace (snd (train_model demo_env demo_args demo_heap 0 100 () demo_loader
          demo_val demo_test [] demo_targets ''image2text''))) = []"
proof -
  have h: "\<not> enable_MetaAdapter demo_args" by (simp add: demo_args_def)
  have g: "encoder demo_args = ''vision''" "0 < n_iters demo_args * shots demo_args"
    "demo_loader \<noteq> []" "\<forall>b \<in> set demo_loader. fst (snd b) \<noteq> []"
    "min (int (length demo_loader)) (n_iters demo_args * shots demo_args) = 3"
    by (simp_all add: demo_args_def demo_loader_def)
  from train_model_without_adapter [OF h, of demo_env demo_heap 0 100 "()" demo_loader demo_val
      demo_test "[]" demo_targets "''image2text''"] g h
  show ?thesis by simp
qed

text \<open>
  Claim C5 as stated fails when the encoder option is \<^verbatim>\<open>text\<close>: line 137 is skipped, so
  the first training batch already raises at line 146 on the unbound
  \<^verbatim>\<open>image_features\<close>. The run ends before any optimizer step and before the end of the
  first epoch, not at the validation call and not on \<^verbatim>\<open>meta_query\<close>.
\<close>

theorem train_model_text_encoder_counterexample:
  "fst (train_model demo_env (demo_args\<lparr>encoder := ''text''\<rparr>) demo_heap 0 100 () demo_loader
          demo_val demo_test [] demo_targets ''image2text'') =
     Some (UnboundLocalError ''image_features'') \<and>
   trace (snd (train_model demo_env (demo_args\<lparr>encoder := ''text''\<rparr>) demo_heap 0 100 ()
          demo_loader demo_val demo_test [] demo_targets ''image2text'')) = [] \<and>
   count_iters (snd (train_model demo_env (demo_args\<lparr>encoder := ''text''\<rparr>) demo_heap 0 100 ()
          demo_loader demo_val demo_test [] demo_targets ''image2text'')) = 0"
  by (simp add: demo_defs demo_test_def scorer_defs eval_defs train_defs Let_def)

section \<open>The number of optimizer steps\<close>

text \<open>The scenario of the specification with the meta-adapter enabled:
  \<open>n_iters = 2\<close>, \<open>shots = 4\<close> and three batches per epoch. The run returns after eight
  optimizer steps; the third epoch is cut after two of its batches.\<close>

lemma train_model_scenario:
  "fst (train_model demo_env (demo_args\<lparr>enable_MetaAdapter := True\<rparr>) demo_heap 0 100 ()
          demo_loader demo_val demo_test [] demo_targets ''image2text'') = None \<and>
   optimizer_steps (trace (snd (train_model demo_env (demo_args\<lparr>enable_MetaAdapter := True\<rparr>)
          demo_heap 0 100 () demo_loader demo_val demo_test [] demo_targets ''image2text''))) = 8 \<and>
   filter (\<lambda>e. is_step e \<or> is_report e)
      (trace (snd (train_model demo_env (demo_args\<lparr>enable_MetaAdapter := True\<rparr>)
          demo_heap 0 100 () demo_loader demo_val demo_test [] demo_targets ''image2text''))) =
     [OptimizerStep 0, OptimizerStep 0, OptimizerStep 0, PrintTrain 0 (2 / 3) 0,
      EvalModel 0 (PyLoader demo_val) (PyLoader demo_val) (PyTensor demo_targets),
      OptimizerStep 0, OptimizerStep 0, OptimizerStep 0, PrintTrain 0 (2 / 3) 0,
      EvalModel 0 (PyLoader demo_val) (PyLoader demo_val) (PyTensor demo_targets),
      OptimizerStep 0, OptimizerStep 0,
      EvalModel 0 (PyLoader demo_val) (PyLoader demo_val) (PyTensor demo_targets),
      EvalModel 1 (PyLoader demo_test) (PyLoader demo_val) (PyTensor demo_targets)]"
  by (simp add: demo_defs demo_test_def scorer_defs eval_defs train_defs Let_def
      optimizer_steps_def is_step_def is_report_def)

text \<open>
  Claim C1, evaluated where the code departs from it. With the meta-adapter disabled,
  \<open>n_iters = 2\<close>, \<open>shots = 4\<close> and a training loader of three batches, \<open>total_iters\<close> is
  8, but the run makes three optimizer steps, prints the summary of the first epoch
  and then raises at line 177: \<^verbatim>\<open>meta_query\<close> was never bound.
\<close>

theorem train_model_stops_at_first_validation:
  "n_iters demo_args * shots demo_args = 8 \<and> length demo_loader = 3 \<and>
   train_model demo_env demo_args demo_heap 0 100 () demo_loader demo_val demo_test []
     demo_targets ''image2text'' =
     (Some (UnboundLocalError ''meta_query''),
      \<lparr>heap = [\<lparr>params = 3, training = False, device = CUDA\<rparr>],
       trace = [EncodeImage 0, OptimizerStep 0, EncodeImage 0, OptimizerStep 0,
                EncodeImage 0, OptimizerStep 0, PrintTrain 0 (2 / 3) 0],
       optimizer = 3, target_features = demo_targets,
       meta_query = None, meta_key = None, image_features = Some [[1, 0]],
       count_iters = 3, best_acc = 0, best_model = 0, acc_train = 2 / 3,
       tot_samples = 3, loss_epoch = 0\<rparr>)"
  by (simp add: demo_defs demo_test_def scorer_defs eval_defs train_defs Let_def numeral_3_eq_3)

end
